theory Spec2Isabelle
  imports Main
begin

section \<open>Python values, exceptions and the observable events\<close>

text \<open>
  The values that \<^verbatim>\<open>await response.json()\<close> can hand to the function, and that the
  function itself returns: Python's \<^verbatim>\<open>None\<close>, booleans, integers, floats, strings,
  lists and dictionaries. A \<^verbatim>\<open>str\<close> is its sequence of Unicode code points, which may
  hold surrogates (the JSON text \<^verbatim>\<open>"\ud800"\<close> decodes to one). A dictionary is kept as
  an association list in which the first binding of a key is the one the dictionary holds;
  of its keys only the lookup of \<^verbatim>\<open>"data"\<close> is used. Of a float only its being zero
  matters to the code, so a finite float is a mantissa and an exponent.
\<close>

datatype pyfloat = Finite int int | Infinity bool | NaN

datatype pyval =
    PyNone
  | PyBool bool
  | PyInt int
  | PyFloat pyfloat
  | PyUnicode "nat list"
  | PyList "pyval list"
  | PyDict "(string \<times> pyval) list"

text \<open>A \<^verbatim>\<open>str\<close> written with 8-bit characters, such as the literals of the source.\<close>

definition PyStr :: "string \<Rightarrow> pyval" where
  "PyStr s = PyUnicode (map of_char s)"

text \<open>
  The exceptions that the calls made by the function raise. All of them are subclasses of
  Python's \<^verbatim>\<open>Exception\<close>, so every \<^verbatim>\<open>except Exception\<close> clause catches each of them.
\<close>

datatype exn =
    ClientConnectionError
  | TimeoutError
  | ClientResponseError int
  | ContentTypeError
  | JSONDecodeError
  | AttributeError
  | KeyError
  | TypeError
  | IndexError
  | UnicodeEncodeError
  | RuntimeError

text \<open>
  What the outside world sees of one invocation: the POST requests, with their URL and JSON
  payload, and the calls of \<^verbatim>\<open>asyncio.sleep\<close>, with their duration in seconds, in the
  order in which they happen.
\<close>

datatype event = Post string pyval | Sleep int

text \<open>
  A response as the function reads it: its \<^verbatim>\<open>status\<close> and what
  \<^verbatim>\<open>await response.json()\<close> gives, a value or an exception (wrong content type,
  undecodable body).
\<close>

record response =
  status :: int
  json_result :: "exn + pyval"

text \<open>
  How aiohttp arrives at such a response. For decoding, a body is blank (empty or white
  space only), the JSON text of a value, or any other text. \<^verbatim>\<open>json.loads\<close> decodes
  only the second kind. \<^verbatim>\<open>response.json()\<close> first raises \<^verbatim>\<open>ContentTypeError\<close>
  unless the content type is \<^verbatim>\<open>application/json\<close>, then returns \<^verbatim>\<open>None\<close> for a
  blank body without decoding it, and otherwise calls \<^verbatim>\<open>json.loads\<close>.
\<close>

datatype body = Blank | JsonText pyval | OtherText

definition json_loads :: "body \<Rightarrow> exn + pyval" where
  "json_loads b = (case b of JsonText v \<Rightarrow> Inr v | Blank \<Rightarrow> Inl JSONDecodeError
     | OtherText \<Rightarrow> Inl JSONDecodeError)"

definition aiohttp_json :: "bool \<Rightarrow> body \<Rightarrow> exn + pyval" where
  "aiohttp_json json_content_type b =
     (if \<not> json_content_type then Inl ContentTypeError
      else if b = Blank then Inr PyNone
      else json_loads b)"

definition received :: "int \<Rightarrow> bool \<Rightarrow> body \<Rightarrow> response" where
  "received st json_content_type b =
     \<lparr>status = st, json_result = aiohttp_json json_content_type b\<rparr>"

text \<open>
  The surroundings of one invocation: the environment variable read by \<^verbatim>\<open>os.getenv\<close>,
  the exception (if any) raised when the client session is constructed and entered, and the
  remote service. The remote service answers a POST by a response or by a transport failure,
  and its answer may depend on everything that happened before (earlier requests and the
  time slept) and on the request.
\<close>

record env =
  UDP_BASE_URL :: "string option"
  session_error :: "exn option"
  remote :: "event list \<Rightarrow> string \<Rightarrow> pyval \<Rightarrow> exn + response"

section \<open>The Python operations used by the function\<close>

text \<open>Truthiness of a value, as tested by \<^verbatim>\<open>and\<close> and \<^verbatim>\<open>if\<close>.\<close>

fun truthy :: "pyval \<Rightarrow> bool" where
  "truthy PyNone = False"
| "truthy (PyBool b) = b"
| "truthy (PyInt i) = (i \<noteq> 0)"
| "truthy (PyFloat (Finite m ex)) = (m \<noteq> 0)"
| "truthy (PyFloat (Infinity sg)) = True"
| "truthy (PyFloat NaN) = True"
| "truthy (PyUnicode cs) = (cs \<noteq> [])"
| "truthy (PyList xs) = (xs \<noteq> [])"
| "truthy (PyDict kvs) = (kvs \<noteq> [])"

text \<open>\<^verbatim>\<open>x != s\<close> for a string \<open>s\<close>: only a string can be equal to a string.\<close>

fun py_ne_str :: "pyval \<Rightarrow> string \<Rightarrow> bool" where
  "py_ne_str (PyUnicode cs) s = (cs \<noteq> map of_char s)"
| "py_ne_str v s = True"

text \<open>
  \<^verbatim>\<open>d.get(k)\<close>: the value of the key or \<^verbatim>\<open>None\<close> on a dictionary; any other value
  that \<^verbatim>\<open>json()\<close> returns has no attribute \<^verbatim>\<open>get\<close>.
\<close>

fun py_get :: "pyval \<Rightarrow> string \<Rightarrow> exn + pyval" where
  "py_get (PyDict kvs) k = Inr (case map_of kvs k of None \<Rightarrow> PyNone | Some v \<Rightarrow> v)"
| "py_get v k = Inl AttributeError"

text \<open>\<^verbatim>\<open>d.get(k, default)\<close>.\<close>

fun py_get_default :: "pyval \<Rightarrow> string \<Rightarrow> pyval \<Rightarrow> exn + pyval" where
  "py_get_default (PyDict kvs) k dflt =
     Inr (case map_of kvs k of None \<Rightarrow> dflt | Some v \<Rightarrow> v)"
| "py_get_default v k dflt = Inl AttributeError"

text \<open>\<^verbatim>\<open>d[k]\<close> for a string key \<open>k\<close>.\<close>

fun py_getitem :: "pyval \<Rightarrow> string \<Rightarrow> exn + pyval" where
  "py_getitem (PyDict kvs) k = (case map_of kvs k of None \<Rightarrow> Inl KeyError | Some v \<Rightarrow> Inr v)"
| "py_getitem v k = Inl TypeError"

text \<open>
  \<^verbatim>\<open>print(f"... {v}")\<close> on a standard output that encodes as UTF-8. A \<^verbatim>\<open>str\<close>
  is written as it is, and a surrogate code point cannot be encoded; every other value is
  formatted in digits and letters or with \<^verbatim>\<open>repr\<close>, which escapes surrogates. The
  fixed text around the value and the numbers printed with it are ASCII.
\<close>

definition surrogate :: "nat \<Rightarrow> bool" where
  "surrogate c = (55296 \<le> c \<and> c \<le> 57343)"

fun py_print :: "pyval \<Rightarrow> exn option" where
  "py_print (PyUnicode cs) = (if list_ex surrogate cs then Some UnicodeEncodeError else None)"
| "py_print v = None"

text \<open>
  \<^verbatim>\<open>xs[i]\<close> on a list: an index from \<open>0\<close> reads from the front, an index from
  \<open>-1\<close> down to \<open>-len(xs)\<close> reads from the back, any other index raises.
\<close>

definition py_index :: "'a list \<Rightarrow> int \<Rightarrow> exn + 'a" where
  "py_index xs i =
     (if 0 \<le> i \<and> i < int (length xs) then Inr (xs ! nat i)
      else if i < 0 \<and> - int (length xs) \<le> i then Inr (xs ! nat (int (length xs) + i))
      else Inl IndexError)"

text \<open>\<^verbatim>\<open>range(n)\<close>.\<close>

definition py_range :: "int \<Rightarrow> int list" where
  "py_range n = map int [0 ..< nat n]"

text \<open>
  \<^verbatim>\<open>response.raise_for_status()\<close> of aiohttp raises \<^verbatim>\<open>ClientResponseError\<close> when the
  status is 400 or higher (its \<^verbatim>\<open>ok\<close> property is \<^verbatim>\<open>400 > self.status\<close>) and does
  nothing otherwise.
\<close>

definition raise_for_status :: "response \<Rightarrow> exn option" where
  "raise_for_status resp =
     (if 400 \<le> status resp then Some (ClientResponseError (status resp)) else None)"

text \<open>
  \<^verbatim>\<open>session.post(url, json=data)\<close>: the request is recorded, and the remote service
  answers from what has happened so far. \<^verbatim>\<open>asyncio.sleep(secs)\<close> is recorded too.
\<close>

definition post :: "env \<Rightarrow> string \<Rightarrow> pyval \<Rightarrow> event list \<Rightarrow> (exn + response) \<times> event list" where
  "post e url data tr = (remote e tr url data, tr @ [Post url data])"

definition sleep :: "int \<Rightarrow> event list \<Rightarrow> event list" where
  "sleep secs tr = tr @ [Sleep secs]"

section \<open>The function create\_and\_fetch\_identity\<close>

text \<open>
  Lines 2 to 6: the two URLs and the payload. An unset environment variable is
  \<^verbatim>\<open>None\<close>, which the f-string formats as \<^verbatim>\<open>None\<close>.
\<close>

definition base_url :: "env \<Rightarrow> string" where
  "base_url e = (case UDP_BASE_URL e of None \<Rightarrow> ''None'' | Some s \<Rightarrow> s)"

definition create_identity_url :: "env \<Rightarrow> string" where
  "create_identity_url e = base_url e @ ''/identity/create''"

definition fetch_identity_url :: "env \<Rightarrow> string" where
  "fetch_identity_url e = base_url e @ ''/identity/get''"

definition request_data :: "string \<Rightarrow> pyval" where
  "request_data user_address = PyDict [(''walletAddress'', PyStr user_address)]"

text \<open>
  The test \<^verbatim>\<open>d.get("data") and d["data"] != "0"\<close> of lines 24 to 27 and of line 67:
  the second operand is evaluated only when the first is truthy.
\<close>

definition identity_test :: "pyval \<Rightarrow> exn + bool" where
  "identity_test d =
     (case py_get d ''data'' of
        Inl x \<Rightarrow> Inl x
      | Inr v \<Rightarrow>
         if truthy v then
           (case py_getitem d ''data'' of
              Inl x \<Rightarrow> Inl x
            | Inr w \<Rightarrow> Inr (py_ne_str w ''0''))
         else Inr False)"

text \<open>
  Lines 21 to 34, the body of the first \<^verbatim>\<open>async with\<close>: \<open>Inr (Some v)\<close> is
  \<^verbatim>\<open>return v\<close>, \<open>Inr None\<close> is falling out of the block, \<open>Inl x\<close> is raising \<open>x\<close>.
  The \<^verbatim>\<open>print\<close> of line 29 comes before the \<^verbatim>\<open>return\<close>, that of line 32 ends the
  other branch.
\<close>

definition initial_fetch_body :: "response \<Rightarrow> exn + pyval option" where
  "initial_fetch_body initial_fetch_response =
     (case raise_for_status initial_fetch_response of
        Some x \<Rightarrow> Inl x
      | None \<Rightarrow>
         (case json_result initial_fetch_response of
            Inl x \<Rightarrow> Inl x
          | Inr initial_fetch_data \<Rightarrow>
             (case identity_test initial_fetch_data of
                Inl x \<Rightarrow> Inl x
              | Inr True \<Rightarrow>
                 (case py_getitem initial_fetch_data ''data'' of
                    Inl x \<Rightarrow> Inl x
                  | Inr omnikey_id \<Rightarrow>
                     (case py_print omnikey_id of
                        Some x \<Rightarrow> Inl x
                      | None \<Rightarrow> Inr (Some omnikey_id)))
              | Inr False \<Rightarrow>
                 (case py_get_default initial_fetch_data ''data'' (PyStr ''None'') of
                    Inl x \<Rightarrow> Inl x
                  | Inr shown \<Rightarrow>
                     (case py_print shown of
                        Some x \<Rightarrow> Inl x
                      | None \<Rightarrow> Inr None)))))"

text \<open>
  Lines 17 to 36, the existence probe: first the statements under \<^verbatim>\<open>try\<close> (the
  POST and the body), then the whole statement, whose \<^verbatim>\<open>except Exception\<close> only
  prints, so that an exception ends the probe like an answer without identity. What the
  handler prints is the message of the exception, which can always be encoded (these
  messages quote a character that cannot be encoded in escaped form).
\<close>

definition initial_fetch_try ::
  "env \<Rightarrow> string \<Rightarrow> pyval \<Rightarrow> event list \<Rightarrow> (exn + pyval option) \<times> event list" where
  "initial_fetch_try e url data tr =
     (case post e url data tr of
        (Inl x, tr') \<Rightarrow> (Inl x, tr')
      | (Inr initial_fetch_response, tr') \<Rightarrow> (initial_fetch_body initial_fetch_response, tr'))"

definition initial_fetch :: "env \<Rightarrow> string \<Rightarrow> pyval \<Rightarrow> event list \<Rightarrow> pyval option \<times> event list" where
  "initial_fetch e url data tr =
     (case initial_fetch_try e url data tr of
        (Inl x, tr') \<Rightarrow> (None, tr')
      | (Inr r, tr') \<Rightarrow> (r, tr'))"

text \<open>
  Lines 42 to 49, the creation request: nothing catches here, so a transport failure, a
  status that \<^verbatim>\<open>raise_for_status\<close> rejects and a body that \<^verbatim>\<open>json()\<close> cannot decode
  all leave the block by an exception, and so does the \<^verbatim>\<open>print\<close> of line 47 when
  it cannot write the decoded body. The variable \<^verbatim>\<open>create_start\<close> is never read.
\<close>

definition create_identity :: "env \<Rightarrow> string \<Rightarrow> pyval \<Rightarrow> event list \<Rightarrow> (exn + pyval) \<times> event list" where
  "create_identity e url data tr =
     (case post e url data tr of
        (Inl x, tr') \<Rightarrow> (Inl x, tr')
      | (Inr create_response, tr') \<Rightarrow>
         (case raise_for_status create_response of
            Some x \<Rightarrow> (Inl x, tr')
          | None \<Rightarrow>
             (case json_result create_response of
                Inl x \<Rightarrow> (Inl x, tr')
              | Inr response_json \<Rightarrow>
                 (case py_print response_json of
                    Some x \<Rightarrow> (Inl x, tr')
                  | None \<Rightarrow> (Inr response_json, tr')))))"

text \<open>
  Lines 63 to 76, the body of the \<^verbatim>\<open>async with\<close> of one fetch attempt, with the
  \<^verbatim>\<open>print\<close> of line 69 before the \<^verbatim>\<open>return\<close> and that of line 74 in the other
  branch.
\<close>

definition fetch_body :: "response \<Rightarrow> exn + pyval option" where
  "fetch_body fetch_response =
     (case raise_for_status fetch_response of
        Some x \<Rightarrow> Inl x
      | None \<Rightarrow>
         (case json_result fetch_response of
            Inl x \<Rightarrow> Inl x
          | Inr fetch_data \<Rightarrow>
             (case identity_test fetch_data of
                Inl x \<Rightarrow> Inl x
              | Inr True \<Rightarrow>
                 (case py_getitem fetch_data ''data'' of
                    Inl x \<Rightarrow> Inl x
                  | Inr omnikey_id \<Rightarrow>
                     (case py_print omnikey_id of
                        Some x \<Rightarrow> Inl x
                      | None \<Rightarrow> Inr (Some omnikey_id)))
              | Inr False \<Rightarrow>
                 (case py_get_default fetch_data ''data'' (PyStr ''None'') of
                    Inl x \<Rightarrow> Inl x
                  | Inr shown \<Rightarrow>
                     (case py_print shown of
                        Some x \<Rightarrow> Inl x
                      | None \<Rightarrow> Inr None)))))"

text \<open>
  Lines 59 to 79, one fetch attempt: the statements under \<^verbatim>\<open>try\<close>, then the whole
  statement with its \<^verbatim>\<open>except Exception\<close>, which only prints.
\<close>

definition fetch_attempt_try ::
  "env \<Rightarrow> string \<Rightarrow> pyval \<Rightarrow> event list \<Rightarrow> (exn + pyval option) \<times> event list" where
  "fetch_attempt_try e url data tr =
     (case post e url data tr of
        (Inl x, tr') \<Rightarrow> (Inl x, tr')
      | (Inr fetch_response, tr') \<Rightarrow> (fetch_body fetch_response, tr'))"

definition fetch_attempt :: "env \<Rightarrow> string \<Rightarrow> pyval \<Rightarrow> event list \<Rightarrow> pyval option \<times> event list" where
  "fetch_attempt e url data tr =
     (case fetch_attempt_try e url data tr of
        (Inl fetch_err, tr') \<Rightarrow> (None, tr')
      | (Inr r, tr') \<Rightarrow> (r, tr'))"

text \<open>
  Lines 58 to 89, the loop \<^verbatim>\<open>for attempt in range(max_retries)\<close> over the attempts
  still to run, and the \<^verbatim>\<open>return None\<close> after it.
\<close>

fun retry_loop ::
  "env \<Rightarrow> string \<Rightarrow> pyval \<Rightarrow> int \<Rightarrow> int list \<Rightarrow> int list \<Rightarrow> event list \<Rightarrow> (exn + pyval) \<times> event list" where
  "retry_loop e url data max_retries retry_delays [] tr = (Inr PyNone, tr)"
| "retry_loop e url data max_retries retry_delays (attempt # rest) tr =
     (case fetch_attempt e url data tr of
        (Some omnikey_id, tr') \<Rightarrow> (Inr omnikey_id, tr')
      | (None, tr') \<Rightarrow>
         if attempt < max_retries - 1 then
           (case py_index retry_delays attempt of
              Inl x \<Rightarrow> (Inl x, tr')
            | Inr wait_time \<Rightarrow>
               retry_loop e url data max_retries retry_delays rest (sleep wait_time tr'))
         else retry_loop e url data max_retries retry_delays rest tr')"

text \<open>
  Lines 10 to 89, the body of the outer \<^verbatim>\<open>try\<close>. The \<^verbatim>\<open>print\<close> of line 14
  writes the wallet address; the other \<^verbatim>\<open>print\<close> calls of the body write fixed text
  and numbers.
\<close>

definition session_body :: "env \<Rightarrow> string \<Rightarrow> event list \<Rightarrow> (exn + pyval) \<times> event list" where
  "session_body e user_address tr =
     (case session_error e of
        Some x \<Rightarrow> (Inl x, tr)
      | None \<Rightarrow>
         (case py_print (PyStr user_address) of
            Some x \<Rightarrow> (Inl x, tr)
          | None \<Rightarrow>
             (case initial_fetch e (fetch_identity_url e) (request_data user_address) tr of
                (Some omnikey_id, tr1) \<Rightarrow> (Inr omnikey_id, tr1)
              | (None, tr1) \<Rightarrow>
                 (case create_identity e (create_identity_url e) (request_data user_address)
                         tr1 of
                    (Inl x, tr2) \<Rightarrow> (Inl x, tr2)
                  | (Inr response_json, tr2) \<Rightarrow>
                     (let max_retries = 3; retry_delays = [5, 10, 15]
                      in retry_loop e (fetch_identity_url e) (request_data user_address)
                           max_retries retry_delays (py_range max_retries)
                           (sleep 10 tr2))))))"

text \<open>
  The whole function. Its result is \<open>Inr v\<close> when it returns \<open>v\<close> and \<open>Inl x\<close> when the
  exception \<open>x\<close> leaves it; the second component is what the outside world saw. The outer
  \<^verbatim>\<open>except Exception\<close> (lines 91 to 93) turns an exception of the body into
  \<^verbatim>\<open>return None\<close>, after printing its message. The parameters \<^verbatim>\<open>user\<close> and
  \<^verbatim>\<open>headers\<close> are received and never read.
\<close>

definition create_and_fetch_identity ::
  "env \<Rightarrow> 'u \<Rightarrow> string \<Rightarrow> 'h \<Rightarrow> (exn + pyval) \<times> event list" where
  "create_and_fetch_identity e user user_address headers =
     (case session_body e user_address [] of
        (Inl err, tr) \<Rightarrow> (Inr PyNone, tr)
      | (Inr v, tr) \<Rightarrow> (Inr v, tr))"

section \<open>Observing an invocation\<close>

text \<open>
  The two requests that the function sends: the POST to the fetch endpoint (the probe and
  every fetch attempt send the same one) and the POST to the create endpoint.
\<close>

definition probe_request :: "env \<Rightarrow> string \<Rightarrow> event" where
  "probe_request e user_address = Post (fetch_identity_url e) (request_data user_address)"

definition create_request :: "env \<Rightarrow> string \<Rightarrow> event" where
  "create_request e user_address = Post (create_identity_url e) (request_data user_address)"

text \<open>How often an endpoint was called in a sequence of events.\<close>

definition calls_to :: "string \<Rightarrow> event list \<Rightarrow> nat" where
  "calls_to url tr =
     length (filter (\<lambda>ev. case ev of Post u d \<Rightarrow> u = url | Sleep s \<Rightarrow> False) tr)"

text \<open>
  Concrete surroundings for the examples: a remote service that answers the POSTs from a
  fixed list, one after the other, and fails to connect once the list is used up.
\<close>

fun posts_so_far :: "event list \<Rightarrow> nat" where
  "posts_so_far [] = 0"
| "posts_so_far (Post u d # tr) = Suc (posts_so_far tr)"
| "posts_so_far (Sleep s # tr) = posts_so_far tr"

definition scripted :: "(exn + response) list \<Rightarrow> event list \<Rightarrow> string \<Rightarrow> pyval \<Rightarrow> exn + response" where
  "scripted answers tr url data =
     (if posts_so_far tr < length answers then answers ! posts_so_far tr
      else Inl ClientConnectionError)"

definition replies :: "int \<Rightarrow> pyval \<Rightarrow> exn + response" where
  "replies s v = Inr \<lparr>status = s, json_result = Inr v\<rparr>"

definition example_env :: "(exn + response) list \<Rightarrow> env" where
  "example_env answers =
     \<lparr>UDP_BASE_URL = Some ''https://udp.example'', session_error = None,
      remote = scripted answers\<rparr>"

definition data_reply :: "pyval \<Rightarrow> exn + response" where
  "data_reply v = replies 200 (PyDict [(''data'', v)])"

section \<open>Strings and printing\<close>

lemma PyStr_eq_iff [simp]: "PyStr s = PyStr t \<longleftrightarrow> s = t"
  by (simp add: PyStr_def inj_map_eq_map [OF inj_of_char])

lemma PyStr_distinct [simp]:
  "PyStr s \<noteq> PyNone" "PyNone \<noteq> PyStr s"
  "PyStr s \<noteq> PyBool b" "PyBool b \<noteq> PyStr s"
  "PyStr s \<noteq> PyInt i" "PyInt i \<noteq> PyStr s"
  "PyStr s \<noteq> PyFloat f" "PyFloat f \<noteq> PyStr s"
  "PyStr s \<noteq> PyList xs" "PyList xs \<noteq> PyStr s"
  "PyStr s \<noteq> PyDict kvs" "PyDict kvs \<noteq> PyStr s"
  by (simp_all add: PyStr_def)

lemma truthy_PyStr [simp]: "truthy (PyStr s) \<longleftrightarrow> s \<noteq> []"
  by (simp add: PyStr_def)

lemma py_ne_str_iff: "py_ne_str v s \<longleftrightarrow> v \<noteq> PyStr s"
  by (cases v) (auto simp: PyStr_def)

lemma py_ne_str_PyStr [simp]: "py_ne_str (PyStr t) s \<longleftrightarrow> t \<noteq> s"
  by (simp add: py_ne_str_iff)

text \<open>An 8-bit character is no surrogate, so such a string can always be printed.\<close>

lemma py_print_PyStr [simp]: "py_print (PyStr s) = None"
proof -
  have "\<not> surrogate (of_char c)" for c :: char
    using nat_of_char_less_256 [of c] unfolding surrogate_def by linarith
  then show ?thesis
    by (simp add: PyStr_def list_ex_iff)
qed

lemma py_print_falsy: "\<not> truthy v \<Longrightarrow> py_print v = None"
  by (cases v) simp_all

lemma py_print_raises: "py_print v = Some x \<Longrightarrow> x = UnicodeEncodeError"
  by (cases v) (simp_all split: if_splits)

text \<open>The string with the single code point U+D800 is truthy, is not "0" and cannot be printed.\<close>

lemma lone_surrogate:
  "truthy (PyUnicode [55296])" "PyUnicode [55296] \<noteq> PyStr ''0''"
  "py_print (PyUnicode [55296]) = Some UnicodeEncodeError"
  by (simp_all add: PyStr_def surrogate_def)

section \<open>The shape of every invocation\<close>

lemma fetch_body_eq: "fetch_body = initial_fetch_body"
  by (rule ext) (simp add: fetch_body_def initial_fetch_body_def)

lemma fetch_attempt_eq: "fetch_attempt = initial_fetch"
  by (intro ext)
    (simp add: fetch_attempt_def initial_fetch_def fetch_attempt_try_def initial_fetch_try_def
       fetch_body_eq split: prod.splits sum.splits)

lemma initial_fetch_try_snd: "snd (initial_fetch_try e url data tr) = tr @ [Post url data]"
  by (simp add: initial_fetch_try_def post_def split: sum.splits)

lemma initial_fetch_snd: "snd (initial_fetch e url data tr) = tr @ [Post url data]"
  using initial_fetch_try_snd [of e url data tr]
  by (auto simp: initial_fetch_def split: prod.splits sum.splits)

lemma fetch_attempt_snd: "snd (fetch_attempt e url data tr) = tr @ [Post url data]"
  by (simp add: fetch_attempt_eq initial_fetch_snd)

lemma create_identity_snd: "snd (create_identity e url data tr) = tr @ [Post url data]"
  by (simp add: create_identity_def post_def split: sum.splits option.splits)

lemma py_range_3: "py_range 3 = [0, 1, 2]"
  by (simp add: py_range_def upt_rec)

lemma retry_loop_step:
  "retry_loop e url data max_retries retry_delays (attempt # rest) tr =
     (case fst (fetch_attempt e url data tr) of
        Some v \<Rightarrow> (Inr v, tr @ [Post url data])
      | None \<Rightarrow>
         if attempt < max_retries - 1 then
           (case py_index retry_delays attempt of
              Inl x \<Rightarrow> (Inl x, tr @ [Post url data])
            | Inr wait_time \<Rightarrow>
               retry_loop e url data max_retries retry_delays rest
                 (tr @ [Post url data, Sleep wait_time]))
         else retry_loop e url data max_retries retry_delays rest (tr @ [Post url data]))"
proof (cases "fetch_attempt e url data tr")
  case (Pair r tr')
  moreover from Pair have "tr' = tr @ [Post url data]"
    using fetch_attempt_snd [of e url data tr] by simp
  ultimately show ?thesis
    by (simp add: sleep_def split: option.splits sum.splits)
qed

lemma py_index_delays:
  "py_index [5, 10, 15 :: int] 0 = Inr 5" "py_index [5, 10, 15 :: int] 1 = Inr 10"
  by (simp_all add: py_index_def)

lemma retry_loop_unfold:
  "retry_loop e url data 3 [5, 10, 15] (py_range 3) tr =
     (case fst (fetch_attempt e url data tr) of
        Some v \<Rightarrow> (Inr v, tr @ [Post url data])
      | None \<Rightarrow>
         (case fst (fetch_attempt e url data (tr @ [Post url data, Sleep 5])) of
            Some v \<Rightarrow> (Inr v, tr @ [Post url data, Sleep 5, Post url data])
          | None \<Rightarrow>
             (case fst (fetch_attempt e url data (tr @ [Post url data, Sleep 5, Post url data, Sleep 10])) of
                Some v \<Rightarrow> (Inr v, tr @ [Post url data, Sleep 5, Post url data, Sleep 10, Post url data])
              | None \<Rightarrow> (Inr PyNone, tr @ [Post url data, Sleep 5, Post url data, Sleep 10, Post url data]))))"
  by (simp add: py_range_3 retry_loop_step py_index_delays del: retry_loop.simps(2)
        split: option.splits)


lemma urls_differ: "create_identity_url e \<noteq> fetch_identity_url e"
  by (simp add: create_identity_url_def fetch_identity_url_def)

lemma initial_fetch_fst:
  "fst (initial_fetch e url data tr) =
     (case remote e tr url data of
        Inl x \<Rightarrow> None
      | Inr r \<Rightarrow> (case initial_fetch_body r of Inl x \<Rightarrow> None | Inr res \<Rightarrow> res))"
  by (simp add: initial_fetch_def initial_fetch_try_def post_def split: sum.splits)

lemma initial_fetch_try_fst:
  "fst (initial_fetch_try e url data tr) =
     (case remote e tr url data of Inl x \<Rightarrow> Inl x | Inr r \<Rightarrow> initial_fetch_body r)"
  by (simp add: initial_fetch_try_def post_def split: sum.splits)

lemma initial_fetch_try_raises:
  "fst (initial_fetch_try e url data tr) = Inl x \<Longrightarrow> fst (initial_fetch e url data tr) = None"
  by (auto simp: initial_fetch_def split: prod.splits sum.splits)

lemma identity_test_dict:
  "identity_test (PyDict kvs) =
     Inr (case map_of kvs ''data'' of None \<Rightarrow> False | Some v \<Rightarrow> truthy v \<and> py_ne_str v ''0'')"
  by (simp add: identity_test_def split: option.splits)

lemma identity_test_other: "(\<forall>kvs. d \<noteq> PyDict kvs) \<Longrightarrow> identity_test d = Inl AttributeError"
  by (cases d) (simp_all add: identity_test_def)

text \<open>The \<^verbatim>\<open>print\<close> of the branch without identity never raises.\<close>

lemma else_print_ok:
  assumes "\<not> (case map_of kvs ''data'' of None \<Rightarrow> False
              | Some v \<Rightarrow> truthy v \<and> py_ne_str v ''0'')"
  shows "py_print (case map_of kvs ''data'' of None \<Rightarrow> PyStr ''None'' | Some v \<Rightarrow> v) = None"
  using assms by (auto simp: py_ne_str_iff py_print_falsy split: option.splits)

lemma initial_fetch_body_dict:
  assumes "status r < 400" "json_result r = Inr (PyDict kvs)"
  shows "initial_fetch_body r =
     (case map_of kvs ''data'' of
        None \<Rightarrow> Inr None
      | Some v \<Rightarrow>
         if truthy v \<and> py_ne_str v ''0'' then
           (case py_print v of Some x \<Rightarrow> Inl x | None \<Rightarrow> Inr (Some v))
         else Inr None)"
proof (cases "case map_of kvs ''data'' of None \<Rightarrow> False
              | Some v \<Rightarrow> truthy v \<and> py_ne_str v ''0''")
  case True
  with assms show ?thesis
    by (auto simp: initial_fetch_body_def raise_for_status_def identity_test_dict
          split: option.splits)
next
  case False
  from else_print_ok [OF False] False assms show ?thesis
    by (auto simp: initial_fetch_body_def raise_for_status_def identity_test_dict
          split: option.splits)
qed

lemma initial_fetch_body_Some_iff:
  "initial_fetch_body r = Inr (Some v) \<longleftrightarrow>
     status r < 400 \<and>
     (\<exists>kvs. json_result r = Inr (PyDict kvs) \<and> map_of kvs ''data'' = Some v \<and>
        truthy v \<and> py_ne_str v ''0'' \<and> py_print v = None)"
proof (cases "status r < 400")
  case False
  then show ?thesis
    by (simp add: initial_fetch_body_def raise_for_status_def)
next
  case True
  note ok = this
  show ?thesis
  proof (cases "json_result r")
    case (Inl x)
    with ok show ?thesis
      by (simp add: initial_fetch_body_def raise_for_status_def)
  next
    case (Inr d)
    show ?thesis
    proof (cases "\<exists>kvs. d = PyDict kvs")
      case True
      then obtain kvs where "d = PyDict kvs" ..
      with Inr ok show ?thesis
        by (auto simp: initial_fetch_body_dict split: option.splits)
    next
      case False
      with Inr ok show ?thesis
        by (simp add: initial_fetch_body_def raise_for_status_def identity_test_other)
    qed
  qed
qed

text \<open>
  When the statements of the probe raise: the POST fails, the status is 400 or higher,
  \<^verbatim>\<open>json()\<close> raises, the decoded body is not a dictionary, or the identity found
  cannot be printed.
\<close>

lemma initial_fetch_body_raises_iff:
  "initial_fetch_body r = Inl x \<longleftrightarrow>
     (400 \<le> status r \<and> x = ClientResponseError (status r))
     \<or> (status r < 400 \<and> json_result r = Inl x)
     \<or> (status r < 400 \<and> x = AttributeError
          \<and> (\<exists>d. json_result r = Inr d \<and> (\<forall>kvs. d \<noteq> PyDict kvs)))
     \<or> (status r < 400
          \<and> (\<exists>kvs v. json_result r = Inr (PyDict kvs) \<and> map_of kvs ''data'' = Some v
                \<and> truthy v \<and> py_ne_str v ''0'' \<and> py_print v = Some x))"
proof (cases "status r < 400")
  case False
  then show ?thesis
    by (auto simp: initial_fetch_body_def raise_for_status_def)
next
  case True
  note ok = this
  show ?thesis
  proof (cases "json_result r")
    case (Inl y)
    with ok show ?thesis
      by (auto simp: initial_fetch_body_def raise_for_status_def)
  next
    case (Inr d)
    show ?thesis
    proof (cases "\<exists>kvs. d = PyDict kvs")
      case True
      then obtain kvs where "d = PyDict kvs" ..
      with Inr ok show ?thesis
        by (auto simp: initial_fetch_body_dict split: option.splits)
    next
      case False
      with Inr ok show ?thesis
        by (auto simp: initial_fetch_body_def raise_for_status_def identity_test_other)
    qed
  qed
qed

lemma initial_fetch_try_raises_iff:
  "fst (initial_fetch_try e url data tr) = Inl x \<longleftrightarrow>
     remote e tr url data = Inl x
     \<or> (\<exists>r. remote e tr url data = Inr r \<and> initial_fetch_body r = Inl x)"
  by (cases "remote e tr url data") (simp_all add: initial_fetch_try_fst)

lemma initial_fetch_body_falsy:
  assumes "json_result r = Inr (PyDict kvs)"
    and "map_of kvs ''data'' = None \<or> (\<exists>v. map_of kvs ''data'' = Some v \<and> (\<not> truthy v \<or> v = PyStr ''0''))"
  shows "initial_fetch_body r \<noteq> Inr (Some w)"
  using assms by (auto simp: initial_fetch_body_Some_iff)

lemma initial_fetch_no_identity:
  assumes "remote e tr url data = Inr r" "json_result r = Inr (PyDict kvs)"
    and "map_of kvs ''data'' = None \<or> (\<exists>v. map_of kvs ''data'' = Some v \<and> (\<not> truthy v \<or> v = PyStr ''0''))"
  shows "fst (initial_fetch e url data tr) = None"
proof (cases "initial_fetch_body r")
  case (Inl x)
  with assms(1) show ?thesis by (simp add: initial_fetch_fst)
next
  case (Inr res)
  with initial_fetch_body_falsy [OF assms(2,3)] have "res = None"
    by (cases res) auto
  with Inr assms(1) show ?thesis by (simp add: initial_fetch_fst)
qed

lemma initial_fetch_identity:
  assumes "remote e tr url data = Inr r" "status r < 400" "json_result r = Inr (PyDict kvs)"
    and "map_of kvs ''data'' = Some v" "truthy v" "py_ne_str v ''0''" "py_print v = None"
  shows "fst (initial_fetch e url data tr) = Some v"
proof -
  have "initial_fetch_body r = Inr (Some v)"
    using assms(2-) by (simp add: initial_fetch_body_Some_iff)
  with assms(1) show ?thesis by (simp add: initial_fetch_fst)
qed


lemma create_identity_fst:
  "fst (create_identity e url data tr) =
     (case remote e tr url data of
        Inl x \<Rightarrow> Inl x
      | Inr r \<Rightarrow>
         if 400 \<le> status r then Inl (ClientResponseError (status r))
         else (case json_result r of
                 Inl x \<Rightarrow> Inl x
               | Inr response_json \<Rightarrow>
                  (case py_print response_json of
                     Some x \<Rightarrow> Inl x
                   | None \<Rightarrow> Inr response_json)))"
  by (simp add: create_identity_def post_def raise_for_status_def split: sum.splits option.splits)

lemma run_unfold:
  "create_and_fetch_identity e user user_address headers =
     (case session_error e of
        Some x \<Rightarrow> (Inr PyNone, [])
      | None \<Rightarrow>
         (case fst (initial_fetch e (fetch_identity_url e) (request_data user_address) []) of
            Some v \<Rightarrow> (Inr v, [probe_request e user_address])
          | None \<Rightarrow>
             (case fst (create_identity e (create_identity_url e) (request_data user_address)
                          [probe_request e user_address]) of
                Inl x \<Rightarrow> (Inr PyNone, [probe_request e user_address, create_request e user_address])
              | Inr response_json \<Rightarrow>
                 (case retry_loop e (fetch_identity_url e) (request_data user_address) 3 [5, 10, 15]
                         (py_range 3)
                         [probe_request e user_address, create_request e user_address, Sleep 10] of
                    (Inl x, tr) \<Rightarrow> (Inr PyNone, tr)
                  | (Inr v, tr) \<Rightarrow> (Inr v, tr)))))"
proof -
  have p: "initial_fetch e (fetch_identity_url e) (request_data user_address) [] =
      (fst (initial_fetch e (fetch_identity_url e) (request_data user_address) []),
       [probe_request e user_address])"
    using initial_fetch_snd [of e "fetch_identity_url e" "request_data user_address" "[]"]
    by (simp add: probe_request_def prod_eq_iff)
  have c: "create_identity e (create_identity_url e) (request_data user_address) [probe_request e user_address] =
      (fst (create_identity e (create_identity_url e) (request_data user_address) [probe_request e user_address]),
       [probe_request e user_address, create_request e user_address])"
    using create_identity_snd [of e "create_identity_url e" "request_data user_address"
        "[probe_request e user_address]"]
    by (simp add: create_request_def prod_eq_iff)
  show ?thesis
  proof (cases "session_error e")
    case (Some x)
    then show ?thesis
      by (simp add: create_and_fetch_identity_def session_body_def)
  next
    case None
    note no_err = this
    show ?thesis
    proof (cases "fst (initial_fetch e (fetch_identity_url e) (request_data user_address) [])")
      case (Some v)
      with p no_err show ?thesis
        by (simp add: create_and_fetch_identity_def session_body_def)
    next
      case None
      note no_id = this
      show ?thesis
      proof (cases "fst (create_identity e (create_identity_url e) (request_data user_address)
                          [probe_request e user_address])")
        case (Inl x)
        with p c no_err no_id show ?thesis
          by (simp add: create_and_fetch_identity_def session_body_def)
      next
        case (Inr response_json)
        with p c no_err no_id show ?thesis
          by (simp add: create_and_fetch_identity_def session_body_def sleep_def)
      qed
    qed
  qed
qed

lemma run_loop:
  assumes "session_error e = None"
    and "fst (initial_fetch e (fetch_identity_url e) (request_data user_address) []) = None"
    and "fst (create_identity e (create_identity_url e) (request_data user_address)
                [probe_request e user_address]) = Inr response_json"
  shows "create_and_fetch_identity e user user_address headers =
     (case fst (fetch_attempt e (fetch_identity_url e) (request_data user_address)
                 [probe_request e user_address, create_request e user_address, Sleep 10]) of
        Some v \<Rightarrow>
          (Inr v, [probe_request e user_address, create_request e user_address, Sleep 10,
                   probe_request e user_address])
      | None \<Rightarrow>
         (case fst (fetch_attempt e (fetch_identity_url e) (request_data user_address)
                     [probe_request e user_address, create_request e user_address, Sleep 10,
                      probe_request e user_address, Sleep 5]) of
            Some v \<Rightarrow>
              (Inr v, [probe_request e user_address, create_request e user_address, Sleep 10,
                       probe_request e user_address, Sleep 5, probe_request e user_address])
          | None \<Rightarrow>
             (case fst (fetch_attempt e (fetch_identity_url e) (request_data user_address)
                         [probe_request e user_address, create_request e user_address, Sleep 10,
                          probe_request e user_address, Sleep 5, probe_request e user_address,
                          Sleep 10]) of
                Some v \<Rightarrow>
                  (Inr v, [probe_request e user_address, create_request e user_address, Sleep 10,
                           probe_request e user_address, Sleep 5, probe_request e user_address,
                           Sleep 10, probe_request e user_address])
              | None \<Rightarrow>
                  (Inr PyNone, [probe_request e user_address, create_request e user_address,
                                Sleep 10, probe_request e user_address, Sleep 5,
                                probe_request e user_address, Sleep 10,
                                probe_request e user_address]))))"
  using assms
  by (simp add: run_unfold retry_loop_unfold probe_request_def split: option.splits)

lemmas example_defs =
  example_env_def scripted_def replies_def data_reply_def probe_request_def create_request_def
  fetch_identity_url_def create_identity_url_def base_url_def request_data_def

lemmas run_defs =
  run_unfold retry_loop_unfold initial_fetch_fst fetch_attempt_eq create_identity_fst
  initial_fetch_try_fst initial_fetch_body_def identity_test_def raise_for_status_def
  calls_to_def

lemma calls_to_simps:
  "calls_to url [] = 0"
  "calls_to url (Post u d # tr) = (if u = url then Suc (calls_to url tr) else calls_to url tr)"
  "calls_to url (Sleep s # tr) = calls_to url tr"
  by (simp_all add: calls_to_def)

lemma calls_to_requests:
  "calls_to (create_identity_url e) (probe_request e a # tr) = calls_to (create_identity_url e) tr"
  "calls_to (create_identity_url e) (create_request e a # tr) = Suc (calls_to (create_identity_url e) tr)"
  using urls_differ [of e] by (auto simp: calls_to_simps probe_request_def create_request_def)

section \<open>The claims\<close>

text \<open>
  C1, as stated, fails: a probe answered with status 200 and the body
  \<^verbatim>\<open>{"data": false}\<close> has a data field that is present and is not \<^verbatim>\<open>"0"\<close>, yet the
  function does not return it and goes on to the create endpoint.
\<close>

theorem falsy_probe_data_not_returned:
  "remote (example_env [data_reply (PyBool False)]) []
      (fetch_identity_url (example_env [data_reply (PyBool False)])) (request_data ''0xabc'')
     = Inr \<lparr>status = 200, json_result = Inr (PyDict [(''data'', PyBool False)])\<rparr>
   \<and> map_of [(''data'', PyBool False)] ''data'' = Some (PyBool False)
   \<and> PyBool False \<noteq> PyStr ''0''
   \<and> create_and_fetch_identity (example_env [data_reply (PyBool False)]) () ''0xabc'' ()
       = (Inr PyNone,
          [probe_request (example_env [data_reply (PyBool False)]) ''0xabc'',
           create_request (example_env [data_reply (PyBool False)]) ''0xabc''])"
  by (simp add: run_defs example_defs)

text \<open>
  Nor is a data value returned that cannot be printed: for the string of the single code
  point U+D800 the \<^verbatim>\<open>print\<close> of line 29 raises inside the probe, the handler of the
  probe swallows the exception, and the function goes on to the create endpoint.
\<close>

lemma unprintable_probe_data_not_returned:
  "create_and_fetch_identity (example_env [data_reply (PyUnicode [55296])]) () ''0xabc'' ()
     = (Inr PyNone,
        [probe_request (example_env [data_reply (PyUnicode [55296])]) ''0xabc'',
         create_request (example_env [data_reply (PyUnicode [55296])]) ''0xabc''])"
  by (simp add: run_defs example_defs surrogate_def)

text \<open>
  C1, amended: when the session opens and the probe is answered with a 2xx status and a JSON
  object whose data field is truthy, not the string \<^verbatim>\<open>"0"\<close> and printable (line 29
  prints it before returning), the function returns that value, the probe is the only
  request made and the create endpoint is never called.
\<close>

theorem probe_identity_short_circuits:
  assumes "session_error e = None"
    and "remote e [] (fetch_identity_url e) (request_data user_address) = Inr r"
    and "200 \<le> status r" and "status r < 300"
    and "json_result r = Inr (PyDict kvs)" and "map_of kvs ''data'' = Some v"
    and "truthy v" and "v \<noteq> PyStr ''0''" and "py_print v = None"
  shows "create_and_fetch_identity e user user_address headers
           = (Inr v, [probe_request e user_address])
         \<and> calls_to (create_identity_url e)
              (snd (create_and_fetch_identity e user user_address headers)) = 0"
proof -
  have "fst (initial_fetch e (fetch_identity_url e) (request_data user_address) []) = Some v"
    using assms by (intro initial_fetch_identity [of e _ _ _ r kvs]) (simp_all add: py_ne_str_iff)
  with assms(1) show ?thesis
    by (simp add: run_unfold calls_to_simps calls_to_requests)
qed

theorem probe_identity_short_circuits_witness:
  "session_error (example_env [data_reply (PyStr ''abc123'')]) = None
   \<and> remote (example_env [data_reply (PyStr ''abc123'')]) []
        (fetch_identity_url (example_env [data_reply (PyStr ''abc123'')])) (request_data ''0xabc'')
       = Inr \<lparr>status = 200, json_result = Inr (PyDict [(''data'', PyStr ''abc123'')])\<rparr>
   \<and> truthy (PyStr ''abc123'') \<and> PyStr ''abc123'' \<noteq> PyStr ''0''
   \<and> py_print (PyStr ''abc123'') = None
   \<and> create_and_fetch_identity (example_env [data_reply (PyStr ''abc123'')]) () ''0xabc'' ()
       = (Inr (PyStr ''abc123''),
          [probe_request (example_env [data_reply (PyStr ''abc123'')]) ''0xabc''])
   \<and> calls_to (create_identity_url (example_env [data_reply (PyStr ''abc123'')]))
        (snd (create_and_fetch_identity (example_env [data_reply (PyStr ''abc123'')]) () ''0xabc'' ())) = 0"
proof -
  let ?e = "example_env [data_reply (PyStr ''abc123'')]"
  let ?r = "\<lparr>status = 200, json_result = Inr (PyDict [(''data'', PyStr ''abc123'')])\<rparr>"
  have h1: "session_error ?e = None" by (simp add: example_defs)
  have h2: "remote ?e [] (fetch_identity_url ?e) (request_data ''0xabc'') = Inr ?r"
    by (simp add: example_defs)
  have h3: "200 \<le> status ?r" "status ?r < 300" by simp_all
  have h4: "json_result ?r = Inr (PyDict [(''data'', PyStr ''abc123'')])" by simp
  have h5: "map_of [(''data'', PyStr ''abc123'')] ''data'' = Some (PyStr ''abc123'')" by simp
  have h6: "truthy (PyStr ''abc123'')" "PyStr ''abc123'' \<noteq> PyStr ''0''"
    "py_print (PyStr ''abc123'') = None" by simp_all
  from probe_identity_short_circuits [OF h1 h2 h3 h4 h5 h6, of "()" "()"] h1 h2 h6
  show ?thesis by blast
qed


lemma fetch_attempt_try_eq: "fetch_attempt_try = initial_fetch_try"
  by (intro ext)
    (simp add: fetch_attempt_try_def initial_fetch_try_def fetch_body_eq split: prod.splits sum.splits)

lemma no_identity_cases:
  assumes "(\<exists>x. fst (initial_fetch_try e url data tr) = Inl x)
     \<or> (\<exists>r kvs. remote e tr url data = Inr r \<and> json_result r = Inr (PyDict kvs)
           \<and> (map_of kvs ''data'' = None \<or> map_of kvs ''data'' = Some PyNone
                \<or> map_of kvs ''data'' = Some (PyStr ''0'')))"
  shows "fst (initial_fetch e url data tr) = None"
  using assms
proof (elim disjE exE conjE)
  fix x assume "fst (initial_fetch_try e url data tr) = Inl x"
  then show ?thesis by (rule initial_fetch_try_raises)
next
  fix r kvs
  assume "remote e tr url data = Inr r" "json_result r = Inr (PyDict kvs)" "map_of kvs ''data'' = None"
  then show ?thesis by (intro initial_fetch_no_identity [of e tr url data r kvs]) simp_all
next
  fix r kvs
  assume "remote e tr url data = Inr r" "json_result r = Inr (PyDict kvs)"
    "map_of kvs ''data'' = Some PyNone"
  then show ?thesis by (intro initial_fetch_no_identity [of e tr url data r kvs]) simp_all
next
  fix r kvs
  assume "remote e tr url data = Inr r" "json_result r = Inr (PyDict kvs)"
    "map_of kvs ''data'' = Some (PyStr ''0'')"
  then show ?thesis by (intro initial_fetch_no_identity [of e tr url data r kvs]) simp_all
qed

lemma run_after_failed_probe:
  assumes "session_error e = None"
    and "fst (initial_fetch e (fetch_identity_url e) (request_data user_address) []) = None"
  shows "take 2 (snd (create_and_fetch_identity e user user_address headers))
           = [probe_request e user_address, create_request e user_address]"
    and "calls_to (create_identity_url e)
           (snd (create_and_fetch_identity e user user_address headers)) = 1"
proof -
  let ?c = "fst (create_identity e (create_identity_url e) (request_data user_address)
                  [probe_request e user_address])"
  show "take 2 (snd (create_and_fetch_identity e user user_address headers))
           = [probe_request e user_address, create_request e user_address]"
  proof (cases ?c)
    case (Inl x)
    with assms show ?thesis by (simp add: run_unfold)
  next
    case (Inr j)
    show ?thesis
      by (simp add: run_loop [OF assms Inr] split: option.splits)
  qed
  show "calls_to (create_identity_url e)
           (snd (create_and_fetch_identity e user user_address headers)) = 1"
  proof (cases ?c)
    case (Inl x)
    with assms show ?thesis by (simp add: run_unfold calls_to_requests calls_to_simps)
  next
    case (Inr j)
    show ?thesis
      by (simp add: run_loop [OF assms Inr] calls_to_requests calls_to_simps split: option.splits)
  qed
qed

lemma initial_fetch_body_fails:
  assumes "400 \<le> status r \<or> (\<exists>x. json_result r = Inl x)
     \<or> (\<exists>d. json_result r = Inr d \<and> (\<forall>kvs. d \<noteq> PyDict kvs))"
  shows "\<exists>y. initial_fetch_body r = Inl y"
  using assms by (cases "status r < 400") (auto simp: initial_fetch_body_raises_iff)

text \<open>
  C2, as stated, fails: a probe answered with the status 300, which is not a 2xx status, and
  the body \<^verbatim>\<open>{"data": "abc"}\<close> does not raise; the function returns \<^verbatim>\<open>"abc"\<close> and the
  create endpoint is never called.
\<close>

theorem probe_status_300_returns_identity:
  "remote (example_env [replies 300 (PyDict [(''data'', PyStr ''abc'')])]) []
      (fetch_identity_url (example_env [replies 300 (PyDict [(''data'', PyStr ''abc'')])]))
      (request_data ''0xabc'')
     = Inr \<lparr>status = 300, json_result = Inr (PyDict [(''data'', PyStr ''abc'')])\<rparr>
   \<and> \<not> (200 \<le> (300::int) \<and> (300::int) < 300)
   \<and> create_and_fetch_identity (example_env [replies 300 (PyDict [(''data'', PyStr ''abc'')])])
        () ''0xabc'' ()
       = (Inr (PyStr ''abc''),
          [probe_request (example_env [replies 300 (PyDict [(''data'', PyStr ''abc'')])]) ''0xabc''])
   \<and> calls_to (create_identity_url (example_env [replies 300 (PyDict [(''data'', PyStr ''abc'')])]))
        (snd (create_and_fetch_identity
               (example_env [replies 300 (PyDict [(''data'', PyStr ''abc'')])]) () ''0xabc'' ())) = 0"
  by (simp add: run_defs example_defs)

text \<open>
  C2, amended: when the session opens and the probe suffers a transport failure, is answered
  with a status of 400 or higher, with a body on which \<^verbatim>\<open>json()\<close> raises or that is no
  object, raises in any other way, or is answered by an object whose data field is absent,
  null or the sentinel \<^verbatim>\<open>"0"\<close>, the function goes on: the request after the probe is the
  create request, and the create endpoint is called exactly once in the whole invocation.
\<close>

theorem probe_failure_leads_to_one_create:
  assumes "session_error e = None"
    and "(\<exists>x. remote e [] (fetch_identity_url e) (request_data user_address) = Inl x)
     \<or> (\<exists>r. remote e [] (fetch_identity_url e) (request_data user_address) = Inr r
           \<and> (400 \<le> status r \<or> (\<exists>x. json_result r = Inl x)
                \<or> (\<exists>d. json_result r = Inr d \<and> (\<forall>kvs. d \<noteq> PyDict kvs))))
     \<or> (\<exists>x. fst (initial_fetch_try e (fetch_identity_url e) (request_data user_address) []) = Inl x)
     \<or> (\<exists>r kvs. remote e [] (fetch_identity_url e) (request_data user_address) = Inr r
           \<and> json_result r = Inr (PyDict kvs)
           \<and> (map_of kvs ''data'' = None \<or> map_of kvs ''data'' = Some PyNone
                \<or> map_of kvs ''data'' = Some (PyStr ''0'')))"
  shows "take 2 (snd (create_and_fetch_identity e user user_address headers))
           = [probe_request e user_address, create_request e user_address]
         \<and> calls_to (create_identity_url e)
              (snd (create_and_fetch_identity e user user_address headers)) = 1"
proof -
  let ?F = "fetch_identity_url e" and ?D = "request_data user_address"
  have "(\<exists>x. fst (initial_fetch_try e ?F ?D []) = Inl x)
     \<or> (\<exists>r kvs. remote e [] ?F ?D = Inr r \<and> json_result r = Inr (PyDict kvs)
           \<and> (map_of kvs ''data'' = None \<or> map_of kvs ''data'' = Some PyNone
                \<or> map_of kvs ''data'' = Some (PyStr ''0'')))"
  proof -
    consider (transport) x where "remote e [] ?F ?D = Inl x"
      | (rejected) r where "remote e [] ?F ?D = Inr r"
          "400 \<le> status r \<or> (\<exists>x. json_result r = Inl x)
           \<or> (\<exists>d. json_result r = Inr d \<and> (\<forall>kvs. d \<noteq> PyDict kvs))"
      | (other) "(\<exists>x. fst (initial_fetch_try e ?F ?D []) = Inl x)
         \<or> (\<exists>r kvs. remote e [] ?F ?D = Inr r \<and> json_result r = Inr (PyDict kvs)
               \<and> (map_of kvs ''data'' = None \<or> map_of kvs ''data'' = Some PyNone
                    \<or> map_of kvs ''data'' = Some (PyStr ''0'')))"
      using assms(2) by blast
    then show ?thesis
    proof cases
      case transport
      then have "fst (initial_fetch_try e ?F ?D []) = Inl x"
        by (simp add: initial_fetch_try_fst)
      then show ?thesis by blast
    next
      case rejected
      then obtain y where "initial_fetch_body r = Inl y"
        using initial_fetch_body_fails [of r] by blast
      with rejected(1) have "fst (initial_fetch_try e ?F ?D []) = Inl y"
        by (simp add: initial_fetch_try_fst)
      then show ?thesis by blast
    next
      case other
      then show ?thesis .
    qed
  qed
  from run_after_failed_probe [OF assms(1) no_identity_cases [OF this],
      where user = user and headers = headers]
  show ?thesis by simp
qed

theorem probe_failure_leads_to_one_create_witness:
  "session_error (example_env [replies 404 (PyDict [(''data'', PyStr ''abc'')]),
       replies 201 (PyDict []), data_reply (PyStr ''id7'')]) = None
   \<and> remote (example_env [replies 404 (PyDict [(''data'', PyStr ''abc'')]),
        replies 201 (PyDict []), data_reply (PyStr ''id7'')]) []
        (fetch_identity_url (example_env [replies 404 (PyDict [(''data'', PyStr ''abc'')]),
           replies 201 (PyDict []), data_reply (PyStr ''id7'')]))
        (request_data ''0xabc'')
       = Inr \<lparr>status = 404, json_result = Inr (PyDict [(''data'', PyStr ''abc'')])\<rparr>
   \<and> (400::int) \<le> 404
   \<and> create_and_fetch_identity
        (example_env [replies 404 (PyDict [(''data'', PyStr ''abc'')]),
           replies 201 (PyDict []), data_reply (PyStr ''id7'')]) () ''0xabc'' ()
       = (Inr (PyStr ''id7''),
          [Post ''https://udp.example/identity/get'' (PyDict [(''walletAddress'', PyStr ''0xabc'')]),
           Post ''https://udp.example/identity/create'' (PyDict [(''walletAddress'', PyStr ''0xabc'')]),
           Sleep 10,
           Post ''https://udp.example/identity/get'' (PyDict [(''walletAddress'', PyStr ''0xabc'')])])
   \<and> calls_to (create_identity_url (example_env [replies 404 (PyDict [(''data'', PyStr ''abc'')]),
          replies 201 (PyDict []), data_reply (PyStr ''id7'')]))
        (snd (create_and_fetch_identity
               (example_env [replies 404 (PyDict [(''data'', PyStr ''abc'')]),
                  replies 201 (PyDict []), data_reply (PyStr ''id7'')]) () ''0xabc'' ())) = 1"
proof -
  let ?e = "example_env [replies 404 (PyDict [(''data'', PyStr ''abc'')]),
       replies 201 (PyDict []), data_reply (PyStr ''id7'')]"
  let ?r = "\<lparr>status = 404, json_result = Inr (PyDict [(''data'', PyStr ''abc'')])\<rparr>"
  let ?F = "fetch_identity_url ?e" and ?D = "request_data ''0xabc''"
  have h1: "session_error ?e = None" by (simp add: example_defs)
  have h2: "remote ?e [] ?F ?D = Inr ?r"
    by (simp add: example_defs)
  then have h2': "(\<exists>x. remote ?e [] ?F ?D = Inl x)
     \<or> (\<exists>r. remote ?e [] ?F ?D = Inr r
           \<and> (400 \<le> status r \<or> (\<exists>x. json_result r = Inl x)
                \<or> (\<exists>d. json_result r = Inr d \<and> (\<forall>kvs. d \<noteq> PyDict kvs))))
     \<or> (\<exists>x. fst (initial_fetch_try ?e ?F ?D []) = Inl x)
     \<or> (\<exists>r kvs. remote ?e [] ?F ?D = Inr r
           \<and> json_result r = Inr (PyDict kvs)
           \<and> (map_of kvs ''data'' = None \<or> map_of kvs ''data'' = Some PyNone
                \<or> map_of kvs ''data'' = Some (PyStr ''0'')))"
    by simp
  have full: "create_and_fetch_identity ?e () ''0xabc'' ()
       = (Inr (PyStr ''id7''),
          [Post ''https://udp.example/identity/get'' (PyDict [(''walletAddress'', PyStr ''0xabc'')]),
           Post ''https://udp.example/identity/create'' (PyDict [(''walletAddress'', PyStr ''0xabc'')]),
           Sleep 10,
           Post ''https://udp.example/identity/get'' (PyDict [(''walletAddress'', PyStr ''0xabc'')])])"
    by (simp add: run_defs example_defs)
  have h3: "(400::int) \<le> 404" by simp
  from probe_failure_leads_to_one_create [OF h1 h2', of "()" "()"] h1 h2 h3 full
  show ?thesis by blast
qed

text \<open>
  C3, as stated, fails: \<^verbatim>\<open>raise_for_status\<close> accepts every status below 400, so a
  create request answered with status 300 (not a 2xx status) and a JSON body does not abort
  the invocation: the settle delay and a fetch attempt follow, and here an identity is
  returned.
\<close>

theorem create_status_300_continues:
  "remote (example_env [data_reply (PyStr ''0''), replies 300 (PyDict []), data_reply (PyStr ''abc'')])
      [probe_request (example_env [data_reply (PyStr ''0''), replies 300 (PyDict []), data_reply (PyStr ''abc'')]) ''0xabc'']
      (create_identity_url (example_env [data_reply (PyStr ''0''), replies 300 (PyDict []), data_reply (PyStr ''abc'')]))
      (request_data ''0xabc'')
     = Inr \<lparr>status = 300, json_result = Inr (PyDict [])\<rparr>
   \<and> \<not> (200 \<le> (300::int) \<and> (300::int) < 300)
   \<and> create_and_fetch_identity
        (example_env [data_reply (PyStr ''0''), replies 300 (PyDict []), data_reply (PyStr ''abc'')]) () ''0xabc'' ()
       = (Inr (PyStr ''abc''),
          [probe_request (example_env [data_reply (PyStr ''0''), replies 300 (PyDict []), data_reply (PyStr ''abc'')]) ''0xabc'',
           create_request (example_env [data_reply (PyStr ''0''), replies 300 (PyDict []), data_reply (PyStr ''abc'')]) ''0xabc'',
           Sleep 10,
           probe_request (example_env [data_reply (PyStr ''0''), replies 300 (PyDict []), data_reply (PyStr ''abc'')]) ''0xabc''])"
  by (simp add: run_defs example_defs)

text \<open>
  C3, amended: when the probe gave no identity and the create request suffers a transport
  failure or is answered with a status of 400 or higher, the function returns
  \<^verbatim>\<open>None\<close> and the create request is the last event: no settle delay and no fetch
  attempt follow.
\<close>

theorem create_failure_aborts:
  assumes "session_error e = None"
    and "fst (initial_fetch e (fetch_identity_url e) (request_data user_address) []) = None"
    and "(\<exists>x. remote e [probe_request e user_address] (create_identity_url e)
                 (request_data user_address) = Inl x)
       \<or> (\<exists>r. remote e [probe_request e user_address] (create_identity_url e)
                 (request_data user_address) = Inr r \<and> 400 \<le> status r)"
  shows "create_and_fetch_identity e user user_address headers
           = (Inr PyNone, [probe_request e user_address, create_request e user_address])"
proof -
  from assms(3)
  have "\<exists>x. fst (create_identity e (create_identity_url e) (request_data user_address)
                   [probe_request e user_address]) = Inl x"
    by (auto simp: create_identity_fst)
  with assms(1,2) show ?thesis
    by (auto simp: run_unfold)
qed

theorem create_failure_aborts_witness:
  "session_error (example_env [data_reply (PyStr ''0''), replies 503 (PyDict [])]) = None
   \<and> fst (initial_fetch (example_env [data_reply (PyStr ''0''), replies 503 (PyDict [])])
            (fetch_identity_url (example_env [data_reply (PyStr ''0''), replies 503 (PyDict [])]))
            (request_data ''0xabc'') []) = None
   \<and> remote (example_env [data_reply (PyStr ''0''), replies 503 (PyDict [])])
        [probe_request (example_env [data_reply (PyStr ''0''), replies 503 (PyDict [])]) ''0xabc'']
        (create_identity_url (example_env [data_reply (PyStr ''0''), replies 503 (PyDict [])]))
        (request_data ''0xabc'')
       = Inr \<lparr>status = 503, json_result = Inr (PyDict [])\<rparr>
   \<and> create_and_fetch_identity (example_env [data_reply (PyStr ''0''), replies 503 (PyDict [])])
        () ''0xabc'' ()
       = (Inr PyNone,
          [probe_request (example_env [data_reply (PyStr ''0''), replies 503 (PyDict [])]) ''0xabc'',
           create_request (example_env [data_reply (PyStr ''0''), replies 503 (PyDict [])]) ''0xabc''])"
proof -
  let ?e = "example_env [data_reply (PyStr ''0''), replies 503 (PyDict [])]"
  let ?r = "\<lparr>status = 503, json_result = Inr (PyDict [])\<rparr>"
  have h1: "session_error ?e = None" by (simp add: example_defs)
  have h2: "fst (initial_fetch ?e (fetch_identity_url ?e) (request_data ''0xabc'') []) = None"
    by (simp add: run_defs example_defs)
  have h3: "remote ?e [probe_request ?e ''0xabc''] (create_identity_url ?e) (request_data ''0xabc'')
              = Inr ?r"
    by (simp add: example_defs)
  then have h3': "(\<exists>x. remote ?e [probe_request ?e ''0xabc''] (create_identity_url ?e)
                 (request_data ''0xabc'') = Inl x)
       \<or> (\<exists>r. remote ?e [probe_request ?e ''0xabc''] (create_identity_url ?e)
                 (request_data ''0xabc'') = Inr r \<and> 400 \<le> status r)"
    by simp
  from create_failure_aborts [OF h1 h2 h3', of "()" "()"] h1 h2 h3
  show ?thesis by blast
qed

text \<open>
  C4: in every invocation in which the creation request completes (lines 43 to 49 leave
  no exception), the create request is followed by a sleep of exactly 10 seconds and only
  then by the first fetch attempt of the retry loop.
\<close>

theorem settle_delay_before_first_fetch:
  assumes "session_error e = None"
    and "fst (initial_fetch e (fetch_identity_url e) (request_data user_address) []) = None"
    and "fst (create_identity e (create_identity_url e) (request_data user_address)
                [probe_request e user_address]) = Inr response_json"
  shows "take 4 (snd (create_and_fetch_identity e user user_address headers))
           = [probe_request e user_address, create_request e user_address, Sleep 10,
              probe_request e user_address]"
  by (simp add: run_loop [OF assms] split: option.splits)

theorem settle_delay_before_first_fetch_witness:
  "session_error (example_env [data_reply PyNone, replies 200 (PyDict []), data_reply (PyStr ''id9'')]) = None
   \<and> fst (initial_fetch (example_env [data_reply PyNone, replies 200 (PyDict []), data_reply (PyStr ''id9'')])
            (fetch_identity_url (example_env [data_reply PyNone, replies 200 (PyDict []), data_reply (PyStr ''id9'')]))
            (request_data ''0xabc'') []) = None
   \<and> fst (create_identity (example_env [data_reply PyNone, replies 200 (PyDict []), data_reply (PyStr ''id9'')])
            (create_identity_url (example_env [data_reply PyNone, replies 200 (PyDict []), data_reply (PyStr ''id9'')]))
            (request_data ''0xabc'')
            [probe_request (example_env [data_reply PyNone, replies 200 (PyDict []), data_reply (PyStr ''id9'')]) ''0xabc''])
       = Inr (PyDict [])
   \<and> take 4 (snd (create_and_fetch_identity
                    (example_env [data_reply PyNone, replies 200 (PyDict []), data_reply (PyStr ''id9'')])
                    () ''0xabc'' ()))
       = [probe_request (example_env [data_reply PyNone, replies 200 (PyDict []), data_reply (PyStr ''id9'')]) ''0xabc'',
          create_request (example_env [data_reply PyNone, replies 200 (PyDict []), data_reply (PyStr ''id9'')]) ''0xabc'',
          Sleep 10,
          probe_request (example_env [data_reply PyNone, replies 200 (PyDict []), data_reply (PyStr ''id9'')]) ''0xabc'']"
proof -
  let ?e = "example_env [data_reply PyNone, replies 200 (PyDict []), data_reply (PyStr ''id9'')]"
  have h1: "session_error ?e = None" by (simp add: example_defs)
  have h2: "fst (initial_fetch ?e (fetch_identity_url ?e) (request_data ''0xabc'') []) = None"
    by (simp add: run_defs example_defs)
  have h3: "fst (create_identity ?e (create_identity_url ?e) (request_data ''0xabc'')
                  [probe_request ?e ''0xabc'']) = Inr (PyDict [])"
    by (simp add: run_defs example_defs)
  from settle_delay_before_first_fetch [OF h1 h2 h3, of "()" "()"] h1 h2 h3
  show ?thesis by blast
qed

text \<open>When \<^verbatim>\<open>response.json()\<close> raises: on a wrong content type, or on text that is not JSON.\<close>

lemma aiohttp_json_raises_iff:
  "aiohttp_json json_content_type b = Inl x \<longleftrightarrow>
     (\<not> json_content_type \<and> x = ContentTypeError)
     \<or> (json_content_type \<and> b = OtherText \<and> x = JSONDecodeError)"
  by (cases b) (auto simp: aiohttp_json_def json_loads_def)

text \<open>
  C10, as stated, fails: a blank body cannot be parsed as JSON (\<^verbatim>\<open>json.loads\<close> raises on
  it), but \<^verbatim>\<open>response.json()\<close> returns \<^verbatim>\<open>None\<close> for it without parsing. A create
  request answered with status 200, a JSON content type and a blank body therefore does not
  abort: the settle delay and a fetch attempt follow, and here an identity is returned.
\<close>

theorem create_blank_body_continues:
  "json_loads Blank = Inl JSONDecodeError
   \<and> remote (example_env [data_reply (PyStr ''0''), Inr (received 200 True Blank), data_reply (PyStr ''abc'')])
        [probe_request (example_env [data_reply (PyStr ''0''), Inr (received 200 True Blank), data_reply (PyStr ''abc'')]) ''0xabc'']
        (create_identity_url (example_env [data_reply (PyStr ''0''), Inr (received 200 True Blank), data_reply (PyStr ''abc'')]))
        (request_data ''0xabc'')
       = Inr (received 200 True Blank)
   \<and> status (received 200 True Blank) = 200
   \<and> create_and_fetch_identity
        (example_env [data_reply (PyStr ''0''), Inr (received 200 True Blank), data_reply (PyStr ''abc'')])
        () ''0xabc'' ()
       = (Inr (PyStr ''abc''),
          [probe_request (example_env [data_reply (PyStr ''0''), Inr (received 200 True Blank), data_reply (PyStr ''abc'')]) ''0xabc'',
           create_request (example_env [data_reply (PyStr ''0''), Inr (received 200 True Blank), data_reply (PyStr ''abc'')]) ''0xabc'',
           Sleep 10,
           probe_request (example_env [data_reply (PyStr ''0''), Inr (received 200 True Blank), data_reply (PyStr ''abc'')]) ''0xabc''])"
  by (simp add: run_defs example_defs received_def aiohttp_json_def json_loads_def)

text \<open>
  C10, amended: when the probe gave no identity and the create request is answered with a 2xx
  status but \<^verbatim>\<open>response.json()\<close> raises on the body (its content type is not JSON, or it
  is text that is neither blank nor JSON), the function returns \<^verbatim>\<open>None\<close> and the create
  request is the last event: the settle delay and the retry loop are not reached.
\<close>

theorem create_unparseable_body_aborts:
  assumes "session_error e = None"
    and "fst (initial_fetch e (fetch_identity_url e) (request_data user_address) []) = None"
    and "remote e [probe_request e user_address] (create_identity_url e)
           (request_data user_address) = Inr r"
    and "200 \<le> status r" and "status r < 300"
    and "json_result r = Inl x"
  shows "create_and_fetch_identity e user user_address headers
           = (Inr PyNone, [probe_request e user_address, create_request e user_address])"
proof -
  have "fst (create_identity e (create_identity_url e) (request_data user_address)
               [probe_request e user_address]) = Inl x"
    using assms(3-) by (simp add: create_identity_fst)
  with assms(1,2) show ?thesis
    by (simp add: run_unfold)
qed

theorem create_unparseable_body_aborts_witness:
  "session_error (example_env [data_reply (PyStr ''0''), Inr (received 200 True OtherText)]) = None
   \<and> fst (initial_fetch (example_env [data_reply (PyStr ''0''), Inr (received 200 True OtherText)])
            (fetch_identity_url (example_env [data_reply (PyStr ''0''), Inr (received 200 True OtherText)]))
            (request_data ''0xabc'') []) = None
   \<and> remote (example_env [data_reply (PyStr ''0''), Inr (received 200 True OtherText)])
        [probe_request (example_env [data_reply (PyStr ''0''), Inr (received 200 True OtherText)]) ''0xabc'']
        (create_identity_url (example_env [data_reply (PyStr ''0''), Inr (received 200 True OtherText)]))
        (request_data ''0xabc'')
       = Inr (received 200 True OtherText)
   \<and> status (received 200 True OtherText) = 200
   \<and> json_result (received 200 True OtherText) = Inl JSONDecodeError
   \<and> create_and_fetch_identity
        (example_env [data_reply (PyStr ''0''), Inr (received 200 True OtherText)])
        () ''0xabc'' ()
       = (Inr PyNone,
          [probe_request (example_env [data_reply (PyStr ''0''), Inr (received 200 True OtherText)]) ''0xabc'',
           create_request (example_env [data_reply (PyStr ''0''), Inr (received 200 True OtherText)]) ''0xabc''])"
proof -
  let ?r = "received 200 True OtherText"
  let ?e = "example_env [data_reply (PyStr ''0''), Inr ?r]"
  have h1: "session_error ?e = None" by (simp add: example_defs)
  have h2: "fst (initial_fetch ?e (fetch_identity_url ?e) (request_data ''0xabc'') []) = None"
    by (simp add: run_defs example_defs)
  have h3: "remote ?e [probe_request ?e ''0xabc''] (create_identity_url ?e) (request_data ''0xabc'')
              = Inr ?r"
    by (simp add: example_defs)
  have h4: "200 \<le> status ?r" "status ?r < 300" "json_result ?r = Inl JSONDecodeError"
    by (simp_all add: received_def aiohttp_json_def json_loads_def)
  have h5: "status ?r = 200" by (simp add: received_def)
  from create_unparseable_body_aborts [OF h1 h2 h3 h4, of "()" "()"] h1 h2 h3 h4(3) h5
  show ?thesis by blast
qed

lemma fetch_attempt_no_identity:
  assumes "(\<exists>x. fst (fetch_attempt_try e url data tr) = Inl x)
     \<or> (\<exists>r kvs. remote e tr url data = Inr r \<and> json_result r = Inr (PyDict kvs)
           \<and> (map_of kvs ''data'' = None \<or> map_of kvs ''data'' = Some PyNone
                \<or> map_of kvs ''data'' = Some (PyStr ''0'')))"
  shows "fst (fetch_attempt e url data tr) = None"
  using no_identity_cases [of e url data tr] assms
  by (simp add: fetch_attempt_eq fetch_attempt_try_eq)

lemma fetch_attempt_identity:
  assumes "remote e tr url data = Inr r" "status r < 400" "json_result r = Inr (PyDict kvs)"
    and "map_of kvs ''data'' = Some v" "truthy v" "v \<noteq> PyStr ''0''" "py_print v = None"
  shows "fst (fetch_attempt e url data tr) = Some v"
  using initial_fetch_identity [OF assms(1-5)] assms(6,7)
  by (simp add: fetch_attempt_eq py_ne_str_iff)

lemma run_shapes:
  "snd (create_and_fetch_identity e user user_address headers) = []
   \<or> snd (create_and_fetch_identity e user user_address headers) = [probe_request e user_address]
   \<or> snd (create_and_fetch_identity e user user_address headers)
        = [probe_request e user_address, create_request e user_address]
   \<or> snd (create_and_fetch_identity e user user_address headers)
        = [probe_request e user_address, create_request e user_address, Sleep 10,
           probe_request e user_address]
   \<or> snd (create_and_fetch_identity e user user_address headers)
        = [probe_request e user_address, create_request e user_address, Sleep 10,
           probe_request e user_address, Sleep 5, probe_request e user_address]
   \<or> snd (create_and_fetch_identity e user user_address headers)
        = [probe_request e user_address, create_request e user_address, Sleep 10,
           probe_request e user_address, Sleep 5, probe_request e user_address, Sleep 10,
           probe_request e user_address]"
proof (cases "session_error e")
  case (Some x)
  then show ?thesis by (simp add: run_unfold)
next
  case None
  note ok = this
  show ?thesis
  proof (cases "fst (initial_fetch e (fetch_identity_url e) (request_data user_address) [])")
    case (Some v)
    with ok show ?thesis by (simp add: run_unfold)
  next
    case None
    note no_id = this
    show ?thesis
    proof (cases "fst (create_identity e (create_identity_url e) (request_data user_address)
                        [probe_request e user_address])")
      case (Inl x)
      with ok no_id show ?thesis by (simp add: run_unfold)
    next
      case (Inr j)
      show ?thesis
        by (simp add: run_loop [OF ok no_id Inr] split: option.splits)
    qed
  qed
qed

text \<open>
  C5: the events of every invocation are one of six sequences, so the retry loop makes at most
  three fetch attempts after the settle delay, sleeps 5 seconds between the first and the
  second, 10 seconds between the second and the third, and never after the third. In
  particular, when the three attempts are answered with a 2xx status and the bodies
  \<^verbatim>\<open>{"data":"0"}\<close>, \<^verbatim>\<open>{"data":"0"}\<close> and \<^verbatim>\<open>{"data":"xyz"}\<close>, the function
  returns \<^verbatim>\<open>"xyz"\<close> after exactly three fetch attempts with sleeps of 5 and 10 seconds
  between them.
\<close>

theorem retry_schedule:
  "(snd (create_and_fetch_identity e user user_address headers) = []
   \<or> snd (create_and_fetch_identity e user user_address headers) = [probe_request e user_address]
   \<or> snd (create_and_fetch_identity e user user_address headers)
        = [probe_request e user_address, create_request e user_address]
   \<or> snd (create_and_fetch_identity e user user_address headers)
        = [probe_request e user_address, create_request e user_address, Sleep 10,
           probe_request e user_address]
   \<or> snd (create_and_fetch_identity e user user_address headers)
        = [probe_request e user_address, create_request e user_address, Sleep 10,
           probe_request e user_address, Sleep 5, probe_request e user_address]
   \<or> snd (create_and_fetch_identity e user user_address headers)
        = [probe_request e user_address, create_request e user_address, Sleep 10,
           probe_request e user_address, Sleep 5, probe_request e user_address, Sleep 10,
           probe_request e user_address])
   \<and> (session_error e = None
        \<and> fst (initial_fetch e (fetch_identity_url e) (request_data user_address) []) = None
        \<and> fst (create_identity e (create_identity_url e) (request_data user_address)
                  [probe_request e user_address]) = Inr response_json
        \<and> remote e [probe_request e user_address, create_request e user_address, Sleep 10]
             (fetch_identity_url e) (request_data user_address)
            = Inr \<lparr>status = s1, json_result = Inr (PyDict [(''data'', PyStr ''0'')])\<rparr>
        \<and> remote e [probe_request e user_address, create_request e user_address, Sleep 10,
                     probe_request e user_address, Sleep 5]
             (fetch_identity_url e) (request_data user_address)
            = Inr \<lparr>status = s2, json_result = Inr (PyDict [(''data'', PyStr ''0'')])\<rparr>
        \<and> remote e [probe_request e user_address, create_request e user_address, Sleep 10,
                     probe_request e user_address, Sleep 5, probe_request e user_address, Sleep 10]
             (fetch_identity_url e) (request_data user_address)
            = Inr \<lparr>status = s3, json_result = Inr (PyDict [(''data'', PyStr ''xyz'')])\<rparr>
        \<and> 200 \<le> s1 \<and> s1 < 300 \<and> 200 \<le> s2 \<and> s2 < 300 \<and> 200 \<le> s3 \<and> s3 < 300
       \<longrightarrow> create_and_fetch_identity e user user_address headers
            = (Inr (PyStr ''xyz''),
               [probe_request e user_address, create_request e user_address, Sleep 10,
                probe_request e user_address, Sleep 5, probe_request e user_address, Sleep 10,
                probe_request e user_address]))"
proof (intro conjI impI)
  show "snd (create_and_fetch_identity e user user_address headers) = []
   \<or> snd (create_and_fetch_identity e user user_address headers) = [probe_request e user_address]
   \<or> snd (create_and_fetch_identity e user user_address headers)
        = [probe_request e user_address, create_request e user_address]
   \<or> snd (create_and_fetch_identity e user user_address headers)
        = [probe_request e user_address, create_request e user_address, Sleep 10,
           probe_request e user_address]
   \<or> snd (create_and_fetch_identity e user user_address headers)
        = [probe_request e user_address, create_request e user_address, Sleep 10,
           probe_request e user_address, Sleep 5, probe_request e user_address]
   \<or> snd (create_and_fetch_identity e user user_address headers)
        = [probe_request e user_address, create_request e user_address, Sleep 10,
           probe_request e user_address, Sleep 5, probe_request e user_address, Sleep 10,
           probe_request e user_address]"
    by (rule run_shapes)
next
  let ?P = "probe_request e user_address" and ?C = "create_request e user_address"
  let ?F = "fetch_identity_url e" and ?D = "request_data user_address"
  assume a: "session_error e = None
        \<and> fst (initial_fetch e ?F ?D []) = None
        \<and> fst (create_identity e (create_identity_url e) ?D [?P]) = Inr response_json
        \<and> remote e [?P, ?C, Sleep 10] ?F ?D
            = Inr \<lparr>status = s1, json_result = Inr (PyDict [(''data'', PyStr ''0'')])\<rparr>
        \<and> remote e [?P, ?C, Sleep 10, ?P, Sleep 5] ?F ?D
            = Inr \<lparr>status = s2, json_result = Inr (PyDict [(''data'', PyStr ''0'')])\<rparr>
        \<and> remote e [?P, ?C, Sleep 10, ?P, Sleep 5, ?P, Sleep 10] ?F ?D
            = Inr \<lparr>status = s3, json_result = Inr (PyDict [(''data'', PyStr ''xyz'')])\<rparr>
        \<and> 200 \<le> s1 \<and> s1 < 300 \<and> 200 \<le> s2 \<and> s2 < 300 \<and> 200 \<le> s3 \<and> s3 < 300"
  then have ok: "session_error e = None"
    and no_id: "fst (initial_fetch e ?F ?D []) = None"
    and cr: "fst (create_identity e (create_identity_url e) ?D [?P]) = Inr response_json"
    by simp_all
  have f1: "fst (fetch_attempt e ?F ?D [?P, ?C, Sleep 10]) = None"
    using a by (intro fetch_attempt_no_identity) auto
  have f2: "fst (fetch_attempt e ?F ?D [?P, ?C, Sleep 10, ?P, Sleep 5]) = None"
    using a by (intro fetch_attempt_no_identity) auto
  have f3: "fst (fetch_attempt e ?F ?D [?P, ?C, Sleep 10, ?P, Sleep 5, ?P, Sleep 10])
              = Some (PyStr ''xyz'')"
    using a
    by (intro fetch_attempt_identity
          [where r = "\<lparr>status = s3, json_result = Inr (PyDict [(''data'', PyStr ''xyz'')])\<rparr>"
             and kvs = "[(''data'', PyStr ''xyz'')]"]) simp_all
  show "create_and_fetch_identity e user user_address headers
            = (Inr (PyStr ''xyz''), [?P, ?C, Sleep 10, ?P, Sleep 5, ?P, Sleep 10, ?P])"
    by (simp add: run_loop [OF ok no_id cr] f1 f2 f3)
qed


theorem retry_schedule_witness:
  "session_error (example_env [data_reply PyNone, replies 200 (PyDict []), data_reply (PyStr ''0''),
       data_reply (PyStr ''0''), data_reply (PyStr ''xyz'')]) = None
   \<and> fst (initial_fetch (example_env [data_reply PyNone, replies 200 (PyDict []), data_reply (PyStr ''0''),
              data_reply (PyStr ''0''), data_reply (PyStr ''xyz'')])
            (fetch_identity_url (example_env [data_reply PyNone, replies 200 (PyDict []),
               data_reply (PyStr ''0''), data_reply (PyStr ''0''), data_reply (PyStr ''xyz'')]))
            (request_data ''0xabc'') []) = None
   \<and> create_and_fetch_identity
        (example_env [data_reply PyNone, replies 200 (PyDict []), data_reply (PyStr ''0''),
           data_reply (PyStr ''0''), data_reply (PyStr ''xyz'')]) () ''0xabc'' ()
       = (Inr (PyStr ''xyz''),
          [Post ''https://udp.example/identity/get'' (PyDict [(''walletAddress'', PyStr ''0xabc'')]),
           Post ''https://udp.example/identity/create'' (PyDict [(''walletAddress'', PyStr ''0xabc'')]),
           Sleep 10,
           Post ''https://udp.example/identity/get'' (PyDict [(''walletAddress'', PyStr ''0xabc'')]),
           Sleep 5,
           Post ''https://udp.example/identity/get'' (PyDict [(''walletAddress'', PyStr ''0xabc'')]),
           Sleep 10,
           Post ''https://udp.example/identity/get'' (PyDict [(''walletAddress'', PyStr ''0xabc'')])])"
proof -
  let ?e = "example_env [data_reply PyNone, replies 200 (PyDict []), data_reply (PyStr ''0''),
       data_reply (PyStr ''0''), data_reply (PyStr ''xyz'')]"
  let ?P = "probe_request ?e ''0xabc''" and ?C = "create_request ?e ''0xabc''"
  let ?F = "fetch_identity_url ?e" and ?D = "request_data ''0xabc''"
  have h1: "session_error ?e = None" by (simp add: example_defs)
  have h2: "fst (initial_fetch ?e ?F ?D []) = None"
    by (simp add: run_defs example_defs)
  have h3: "fst (create_identity ?e (create_identity_url ?e) ?D [?P]) = Inr (PyDict [])"
    by (simp add: run_defs example_defs)
  have h4: "remote ?e [?P, ?C, Sleep 10] ?F ?D
      = Inr \<lparr>status = 200, json_result = Inr (PyDict [(''data'', PyStr ''0'')])\<rparr>"
    by (simp add: example_defs)
  have h5: "remote ?e [?P, ?C, Sleep 10, ?P, Sleep 5] ?F ?D
      = Inr \<lparr>status = 200, json_result = Inr (PyDict [(''data'', PyStr ''0'')])\<rparr>"
    by (simp add: example_defs)
  have h6: "remote ?e [?P, ?C, Sleep 10, ?P, Sleep 5, ?P, Sleep 10] ?F ?D
      = Inr \<lparr>status = 200, json_result = Inr (PyDict [(''data'', PyStr ''xyz'')])\<rparr>"
    by (simp add: example_defs)
  have "create_and_fetch_identity ?e () ''0xabc'' ()
       = (Inr (PyStr ''xyz''), [?P, ?C, Sleep 10, ?P, Sleep 5, ?P, Sleep 10, ?P])"
    using retry_schedule [of ?e "()" "''0xabc''" "()" "PyDict []" 200 200 200] h1 h2 h3 h4 h5 h6
    by simp
  then have "create_and_fetch_identity ?e () ''0xabc'' ()
       = (Inr (PyStr ''xyz''),
          [Post ''https://udp.example/identity/get'' (PyDict [(''walletAddress'', PyStr ''0xabc'')]),
           Post ''https://udp.example/identity/create'' (PyDict [(''walletAddress'', PyStr ''0xabc'')]),
           Sleep 10,
           Post ''https://udp.example/identity/get'' (PyDict [(''walletAddress'', PyStr ''0xabc'')]),
           Sleep 5,
           Post ''https://udp.example/identity/get'' (PyDict [(''walletAddress'', PyStr ''0xabc'')]),
           Sleep 10,
           Post ''https://udp.example/identity/get'' (PyDict [(''walletAddress'', PyStr ''0xabc'')])])"
    by (simp add: example_defs)
  with h1 h2 show ?thesis by blast
qed

text \<open>
  C6: when the creation request completes and each of the three fetch attempts raises or is
  answered by an object whose data field is absent, null or the sentinel \<^verbatim>\<open>"0"\<close>, the
  function returns \<^verbatim>\<open>None\<close>, and the third fetch request is the last event: no request
  and no sleep follow it.
\<close>

theorem retries_exhausted_returns_none:
  assumes "session_error e = None"
    and "fst (initial_fetch e (fetch_identity_url e) (request_data user_address) []) = None"
    and "fst (create_identity e (create_identity_url e) (request_data user_address)
                [probe_request e user_address]) = Inr response_json"
    and "\<forall>h \<in> set [[probe_request e user_address, create_request e user_address, Sleep 10],
                     [probe_request e user_address, create_request e user_address, Sleep 10,
                      probe_request e user_address, Sleep 5],
                     [probe_request e user_address, create_request e user_address, Sleep 10,
                      probe_request e user_address, Sleep 5, probe_request e user_address,
                      Sleep 10]].
           (\<exists>x. fst (fetch_attempt_try e (fetch_identity_url e) (request_data user_address) h) = Inl x)
         \<or> (\<exists>r kvs. remote e h (fetch_identity_url e) (request_data user_address) = Inr r
               \<and> json_result r = Inr (PyDict kvs)
               \<and> (map_of kvs ''data'' = None \<or> map_of kvs ''data'' = Some PyNone
                    \<or> map_of kvs ''data'' = Some (PyStr ''0'')))"
  shows "create_and_fetch_identity e user user_address headers
           = (Inr PyNone,
              [probe_request e user_address, create_request e user_address, Sleep 10,
               probe_request e user_address, Sleep 5, probe_request e user_address, Sleep 10,
               probe_request e user_address])"
proof -
  let ?P = "probe_request e user_address" and ?C = "create_request e user_address"
  let ?F = "fetch_identity_url e" and ?D = "request_data user_address"
  have f1: "fst (fetch_attempt e ?F ?D [?P, ?C, Sleep 10]) = None"
    using assms(4) by (intro fetch_attempt_no_identity) simp
  have f2: "fst (fetch_attempt e ?F ?D [?P, ?C, Sleep 10, ?P, Sleep 5]) = None"
    using assms(4) by (intro fetch_attempt_no_identity) simp
  have f3: "fst (fetch_attempt e ?F ?D [?P, ?C, Sleep 10, ?P, Sleep 5, ?P, Sleep 10]) = None"
    using assms(4) by (intro fetch_attempt_no_identity) simp
  show ?thesis
    by (simp add: run_loop [OF assms(1-3)] f1 f2 f3)
qed


theorem retries_exhausted_returns_none_witness:
  "session_error (example_env [data_reply (PyStr ''0''), replies 200 (PyDict []),
       data_reply (PyStr ''0''), replies 200 (PyDict []), Inl ClientConnectionError]) = None
   \<and> fst (initial_fetch (example_env [data_reply (PyStr ''0''), replies 200 (PyDict []),
              data_reply (PyStr ''0''), replies 200 (PyDict []), Inl ClientConnectionError])
            (fetch_identity_url (example_env [data_reply (PyStr ''0''), replies 200 (PyDict []),
               data_reply (PyStr ''0''), replies 200 (PyDict []), Inl ClientConnectionError]))
            (request_data ''0xabc'') []) = None
   \<and> create_and_fetch_identity
        (example_env [data_reply (PyStr ''0''), replies 200 (PyDict []),
           data_reply (PyStr ''0''), replies 200 (PyDict []), Inl ClientConnectionError])
        () ''0xabc'' ()
       = (Inr PyNone,
          [Post ''https://udp.example/identity/get'' (PyDict [(''walletAddress'', PyStr ''0xabc'')]),
           Post ''https://udp.example/identity/create'' (PyDict [(''walletAddress'', PyStr ''0xabc'')]),
           Sleep 10,
           Post ''https://udp.example/identity/get'' (PyDict [(''walletAddress'', PyStr ''0xabc'')]),
           Sleep 5,
           Post ''https://udp.example/identity/get'' (PyDict [(''walletAddress'', PyStr ''0xabc'')]),
           Sleep 10,
           Post ''https://udp.example/identity/get'' (PyDict [(''walletAddress'', PyStr ''0xabc'')])])"
proof -
  let ?e = "example_env [data_reply (PyStr ''0''), replies 200 (PyDict []),
       data_reply (PyStr ''0''), replies 200 (PyDict []), Inl ClientConnectionError]"
  let ?P = "probe_request ?e ''0xabc''" and ?C = "create_request ?e ''0xabc''"
  let ?F = "fetch_identity_url ?e" and ?D = "request_data ''0xabc''"
  have h1: "session_error ?e = None" by (simp add: example_defs)
  have h2: "fst (initial_fetch ?e ?F ?D []) = None"
    by (simp add: run_defs example_defs)
  have h3: "fst (create_identity ?e (create_identity_url ?e) ?D [?P]) = Inr (PyDict [])"
    by (simp add: run_defs example_defs)
  have a1: "remote ?e [?P, ?C, Sleep 10] ?F ?D
      = Inr \<lparr>status = 200, json_result = Inr (PyDict [(''data'', PyStr ''0'')])\<rparr>"
    by (simp add: example_defs)
  have a2: "remote ?e [?P, ?C, Sleep 10, ?P, Sleep 5] ?F ?D
      = Inr \<lparr>status = 200, json_result = Inr (PyDict [])\<rparr>"
    by (simp add: example_defs)
  have a3: "fst (fetch_attempt_try ?e ?F ?D [?P, ?C, Sleep 10, ?P, Sleep 5, ?P, Sleep 10])
      = Inl ClientConnectionError"
    by (simp add: fetch_attempt_try_eq initial_fetch_try_fst example_defs)
  have h4: "\<forall>h \<in> set [[?P, ?C, Sleep 10], [?P, ?C, Sleep 10, ?P, Sleep 5],
                       [?P, ?C, Sleep 10, ?P, Sleep 5, ?P, Sleep 10]].
           (\<exists>x. fst (fetch_attempt_try ?e ?F ?D h) = Inl x)
         \<or> (\<exists>r kvs. remote ?e h ?F ?D = Inr r
               \<and> json_result r = Inr (PyDict kvs)
               \<and> (map_of kvs ''data'' = None \<or> map_of kvs ''data'' = Some PyNone
                    \<or> map_of kvs ''data'' = Some (PyStr ''0'')))"
    using a1 a2 a3 by simp
  have "create_and_fetch_identity ?e () ''0xabc'' ()
       = (Inr PyNone, [?P, ?C, Sleep 10, ?P, Sleep 5, ?P, Sleep 10, ?P])"
    by (rule retries_exhausted_returns_none [OF h1 h2 h3 h4])
  then have "create_and_fetch_identity ?e () ''0xabc'' ()
       = (Inr PyNone,
          [Post ''https://udp.example/identity/get'' (PyDict [(''walletAddress'', PyStr ''0xabc'')]),
           Post ''https://udp.example/identity/create'' (PyDict [(''walletAddress'', PyStr ''0xabc'')]),
           Sleep 10,
           Post ''https://udp.example/identity/get'' (PyDict [(''walletAddress'', PyStr ''0xabc'')]),
           Sleep 5,
           Post ''https://udp.example/identity/get'' (PyDict [(''walletAddress'', PyStr ''0xabc'')]),
           Sleep 10,
           Post ''https://udp.example/identity/get'' (PyDict [(''walletAddress'', PyStr ''0xabc'')])])"
    by (simp add: example_defs)
  with h1 h2 show ?thesis by blast
qed




text \<open>
  C8: for a fixed environment, remote service and wallet address, two invocations that
  differ only in the arguments \<^verbatim>\<open>user\<close> and \<^verbatim>\<open>headers\<close> return the same result
  and produce the same sequence of requests and sleeps.
\<close>

theorem user_and_headers_ignored:
  "create_and_fetch_identity e user1 user_address headers1
     = create_and_fetch_identity e user2 user_address headers2"
  by (simp add: create_and_fetch_identity_def)

text \<open>
  C9: the empty string, the integer 0, \<^verbatim>\<open>False\<close> and \<^verbatim>\<open>None\<close> are falsy; an answer
  whose data field is any falsy value gives no identity, in the probe and in every fetch
  attempt alike; and a probe answered so is followed by the create request.
\<close>

theorem falsy_data_is_no_identity:
  "\<not> truthy (PyStr '''') \<and> \<not> truthy (PyInt 0) \<and> \<not> truthy (PyBool False)
   \<and> \<not> truthy PyNone
   \<and> (remote e tr url data = Inr r \<and> json_result r = Inr (PyDict kvs)
        \<and> map_of kvs ''data'' = Some v \<and> \<not> truthy v
       \<longrightarrow> fst (initial_fetch e url data tr) = None \<and> fst (fetch_attempt e url data tr) = None)
   \<and> (session_error e = None
        \<and> remote e [] (fetch_identity_url e) (request_data user_address) = Inr r
        \<and> json_result r = Inr (PyDict kvs) \<and> map_of kvs ''data'' = Some v \<and> \<not> truthy v
       \<longrightarrow> take 2 (snd (create_and_fetch_identity e user user_address headers))
            = [probe_request e user_address, create_request e user_address])"
proof (intro conjI impI)
  assume a: "remote e tr url data = Inr r \<and> json_result r = Inr (PyDict kvs)
        \<and> map_of kvs ''data'' = Some v \<and> \<not> truthy v"
  then have n: "fst (initial_fetch e url data tr) = None"
    by (intro initial_fetch_no_identity [of e tr url data r kvs]) simp_all
  then show "fst (initial_fetch e url data tr) = None" .
  from n show "fst (fetch_attempt e url data tr) = None"
    by (simp add: fetch_attempt_eq)
next
  assume a: "session_error e = None
        \<and> remote e [] (fetch_identity_url e) (request_data user_address) = Inr r
        \<and> json_result r = Inr (PyDict kvs) \<and> map_of kvs ''data'' = Some v \<and> \<not> truthy v"
  then have n: "fst (initial_fetch e (fetch_identity_url e) (request_data user_address) []) = None"
    by (intro initial_fetch_no_identity [of e "[]" _ _ r kvs]) simp_all
  from a have ok: "session_error e = None" by simp
  show "take 2 (snd (create_and_fetch_identity e user user_address headers))
            = [probe_request e user_address, create_request e user_address]"
    by (rule run_after_failed_probe(1) [OF ok n])
qed simp_all

theorem falsy_data_is_no_identity_witness:
  "session_error (example_env [data_reply (PyStr ''''), replies 200 (PyDict []), data_reply (PyInt 0),
      data_reply (PyBool False), data_reply (PyStr ''id3'')]) = None
   \<and> remote (example_env [data_reply (PyStr ''''), replies 200 (PyDict []), data_reply (PyInt 0),
        data_reply (PyBool False), data_reply (PyStr ''id3'')]) []
        (fetch_identity_url (example_env [data_reply (PyStr ''''), replies 200 (PyDict []),
           data_reply (PyInt 0), data_reply (PyBool False), data_reply (PyStr ''id3'')]))
        (request_data ''0xabc'')
       = Inr \<lparr>status = 200, json_result = Inr (PyDict [(''data'', PyStr '''')])\<rparr>
   \<and> \<not> truthy (PyStr '''')
   \<and> take 2 (snd (create_and_fetch_identity
        (example_env [data_reply (PyStr ''''), replies 200 (PyDict []), data_reply (PyInt 0),
           data_reply (PyBool False), data_reply (PyStr ''id3'')]) () ''0xabc'' ()))
       = [Post ''https://udp.example/identity/get'' (PyDict [(''walletAddress'', PyStr ''0xabc'')]),
          Post ''https://udp.example/identity/create'' (PyDict [(''walletAddress'', PyStr ''0xabc'')])]
   \<and> create_and_fetch_identity
        (example_env [data_reply (PyStr ''''), replies 200 (PyDict []), data_reply (PyInt 0),
           data_reply (PyBool False), data_reply (PyStr ''id3'')]) () ''0xabc'' ()
       = (Inr (PyStr ''id3''),
          [Post ''https://udp.example/identity/get'' (PyDict [(''walletAddress'', PyStr ''0xabc'')]),
           Post ''https://udp.example/identity/create'' (PyDict [(''walletAddress'', PyStr ''0xabc'')]),
           Sleep 10,
           Post ''https://udp.example/identity/get'' (PyDict [(''walletAddress'', PyStr ''0xabc'')]),
           Sleep 5,
           Post ''https://udp.example/identity/get'' (PyDict [(''walletAddress'', PyStr ''0xabc'')]),
           Sleep 10,
           Post ''https://udp.example/identity/get'' (PyDict [(''walletAddress'', PyStr ''0xabc'')])])"
proof -
  let ?e = "example_env [data_reply (PyStr ''''), replies 200 (PyDict []), data_reply (PyInt 0),
      data_reply (PyBool False), data_reply (PyStr ''id3'')]"
  let ?r = "\<lparr>status = 200, json_result = Inr (PyDict [(''data'', PyStr '''')])\<rparr>"
  have h1: "session_error ?e = None" by (simp add: example_defs)
  have h2: "remote ?e [] (fetch_identity_url ?e) (request_data ''0xabc'') = Inr ?r"
    by (simp add: example_defs)
  have h3: "json_result ?r = Inr (PyDict [(''data'', PyStr '''')])"
    "map_of [(''data'', PyStr '''')] ''data'' = Some (PyStr '''')" "\<not> truthy (PyStr '''')"
    by simp_all
  from falsy_data_is_no_identity [of ?e "[]" "fetch_identity_url ?e" "request_data ''0xabc''" ?r
      "[(''data'', PyStr '''')]" "PyStr ''''" "''0xabc''" "()" "()"] h1 h2 h3
  have "take 2 (snd (create_and_fetch_identity ?e () ''0xabc'' ()))
      = [probe_request ?e ''0xabc'', create_request ?e ''0xabc'']"
    by blast
  then have t: "take 2 (snd (create_and_fetch_identity ?e () ''0xabc'' ()))
       = [Post ''https://udp.example/identity/get'' (PyDict [(''walletAddress'', PyStr ''0xabc'')]),
          Post ''https://udp.example/identity/create'' (PyDict [(''walletAddress'', PyStr ''0xabc'')])]"
    by (simp add: example_defs)
  have full: "create_and_fetch_identity ?e () ''0xabc'' ()
       = (Inr (PyStr ''id3''),
          [Post ''https://udp.example/identity/get'' (PyDict [(''walletAddress'', PyStr ''0xabc'')]),
           Post ''https://udp.example/identity/create'' (PyDict [(''walletAddress'', PyStr ''0xabc'')]),
           Sleep 10,
           Post ''https://udp.example/identity/get'' (PyDict [(''walletAddress'', PyStr ''0xabc'')]),
           Sleep 5,
           Post ''https://udp.example/identity/get'' (PyDict [(''walletAddress'', PyStr ''0xabc'')]),
           Sleep 10,
           Post ''https://udp.example/identity/get'' (PyDict [(''walletAddress'', PyStr ''0xabc'')])])"
    by (simp add: run_defs example_defs)
  from h1 h2 h3(3) t full show ?thesis by blast
qed

end
